theory Spec2Isabelle
  imports Complex_Main
begin

section \<open>Python values, exceptions and the runtime\<close>

text \<open>
  The fraud detection engine of \<^verbatim>\<open>app/core/fraud_engine.py\<close> works on untyped
  dictionaries. A payload is a map from keys to Python values. A Python float is a finite
  value, an infinity or NaN (\<open>npfloat\<close>); the finite values are modelled as real numbers
  (exact arithmetic, no rounding error), and where the binary representation decides an
  outcome, as in rounding near a tie, the outcome is left to the runtime. Exceptions are
  values: a function that may raise returns \<open>exn + 'a\<close>; the text of an exception is kept
  up to its variable part.
\<close>

datatype exn =
    ValueError string
  | TypeError string
  | AttributeError string
  | IndexError string
  | OverflowError string
  | ZeroDivisionError string
  | LibraryError string

fun str_exn :: "exn \<Rightarrow> string" where
  "str_exn (ValueError m) = m"
| "str_exn (TypeError m) = m"
| "str_exn (AttributeError m) = m"
| "str_exn (IndexError m) = m"
| "str_exn (OverflowError m) = m"
| "str_exn (ZeroDivisionError m) = m"
| "str_exn (LibraryError m) = m"

record datetime =
  hour :: nat
  weekday :: nat

datatype npfloat = Fin real | PosInf | NegInf | NaN

datatype pyval =
    PyNone
  | PyBool bool
  | PyInt int
  | PyFloat npfloat
  | PyStr string
  | PyDatetime datetime
  | PyList "pyval list"

type_synonym payload = "string \<rightharpoonup> pyval"

text \<open>
  What the code takes from the interpreter and its libraries, and does not define itself:
  the parser of \<^verbatim>\<open>float(str)\<close> (which accepts \<^verbatim>\<open>'nan'\<close> and \<^verbatim>\<open>'inf'\<close>),
  \<^verbatim>\<open>datetime.fromisoformat\<close>, the clock, the iteration order of a \<^verbatim>\<open>set\<close> of
  strings (\<^verbatim>\<open>list(set(xs))\<close>), which depends on the per-process string hash, and the
  direction in which \<^verbatim>\<open>round(x, 2)\<close> goes when \<open>x\<close> is so close to a tie that the
  binary representation and the rounding routine (the builtin for a Python float,
  \<^verbatim>\<open>rint(x * 100) / 100\<close> for a numpy float) decide.
\<close>

record runtime =
  float_of_str :: "string \<Rightarrow> npfloat option"
  fromisoformat :: "string \<Rightarrow> datetime option"
  now :: datetime
  utcnow_isoformat :: string
  list_of_set :: "string list \<Rightarrow> string list"
  tie_up :: "real \<Rightarrow> bool"

text \<open>
  Sequencing of statements that may raise: the first exception ends the block.
\<close>

definition exn_bind :: "exn + 'a \<Rightarrow> ('a \<Rightarrow> exn + 'b) \<Rightarrow> exn + 'b" where
  "exn_bind m f = (case m of Inl e \<Rightarrow> Inl e | Inr x \<Rightarrow> f x)"

text \<open>\<^verbatim>\<open>d.get(k, default)\<close>\<close>

definition dict_get :: "payload \<Rightarrow> string \<Rightarrow> pyval \<Rightarrow> pyval" where
  "dict_get d k dflt = (case d k of None \<Rightarrow> dflt | Some v \<Rightarrow> v)"

text \<open>
  \<^verbatim>\<open>float(v)\<close>. An integer converts when it rounds to a finite double, that is when its
  magnitude is below \<open>2 ^ 1024 - 2 ^ 970\<close>; beyond, \<^verbatim>\<open>float\<close> raises OverflowError.
\<close>

definition float_int_bound :: int where
  "float_int_bound = 2 ^ 1024 - 2 ^ 970"

fun py_float :: "runtime \<Rightarrow> pyval \<Rightarrow> exn + npfloat" where
  "py_float rt PyNone = Inl (TypeError ''float() argument must be a string or a real number'')"
| "py_float rt (PyBool b) = Inr (Fin (if b then 1 else 0))"
| "py_float rt (PyInt i) =
     (if \<bar>i\<bar> < float_int_bound then Inr (Fin (real_of_int i))
      else Inl (OverflowError ''int too large to convert to float''))"
| "py_float rt (PyFloat x) = Inr x"
| "py_float rt (PyStr s) =
     (case float_of_str rt s of
        None \<Rightarrow> Inl (ValueError ''could not convert string to float'')
      | Some x \<Rightarrow> Inr x)"
| "py_float rt (PyDatetime d) = Inl (TypeError ''float() argument must be a string or a real number'')"
| "py_float rt (PyList vs) = Inl (TypeError ''float() argument must be a string or a real number'')"

text \<open>Truthiness of a value in \<^verbatim>\<open>if v:\<close>\<close>

fun truthy :: "pyval \<Rightarrow> bool" where
  "truthy PyNone = False"
| "truthy (PyBool b) = b"
| "truthy (PyInt i) = (i \<noteq> 0)"
| "truthy (PyFloat x) = (x \<noteq> Fin 0)"
| "truthy (PyStr s) = (s \<noteq> [])"
| "truthy (PyDatetime d) = True"
| "truthy (PyList vs) = (vs \<noteq> [])"

text \<open>\<^verbatim>\<open>s.replace('Z', '+00:00')\<close>\<close>

definition replace_Z :: "string \<Rightarrow> string" where
  "replace_Z s = concat (map (\<lambda>c. if c = CHR ''Z'' then ''+00:00'' else [c]) s)"

text \<open>\<^verbatim>\<open>needle in haystack\<close> on strings: the needle occurs as a contiguous run.\<close>

fun str_contains :: "string \<Rightarrow> string \<Rightarrow> bool" where
  "str_contains needle [] = (needle = [])"
| "str_contains needle (c # cs) =
     (take (length needle) (c # cs) = needle \<or> str_contains needle cs)"

text \<open>\<^verbatim>\<open>'rapid' in v\<close>: substring test on a string, membership on a list, TypeError otherwise.\<close>

fun py_in :: "string \<Rightarrow> pyval \<Rightarrow> exn + bool" where
  "py_in needle (PyStr s) = Inr (str_contains needle s)"
| "py_in needle (PyList vs) = Inr (PyStr needle \<in> set vs)"
| "py_in needle v = Inl (TypeError ''argument is not iterable'')"

text \<open>
  \<^verbatim>\<open>table.get(v, default)\<close> on a dictionary with string keys: an unhashable key
  (a list) raises, any other key that is not one of the strings gives the default.
\<close>

fun code_get :: "(string \<times> nat) list \<Rightarrow> pyval \<Rightarrow> nat \<Rightarrow> exn + nat" where
  "code_get table (PyList vs) dflt = Inl (TypeError ''unhashable type: list'')"
| "code_get table (PyStr s) dflt =
     Inr (case map_of table s of None \<Rightarrow> dflt | Some n \<Rightarrow> n)"
| "code_get table v dflt = Inr dflt"

text \<open>\<^verbatim>\<open>timestamp.hour\<close> and \<^verbatim>\<open>timestamp.weekday()\<close> on whatever the payload held.\<close>

fun attr_hour :: "pyval \<Rightarrow> exn + nat" where
  "attr_hour (PyDatetime d) = Inr (hour d)"
| "attr_hour v = Inl (AttributeError ''object has no attribute hour'')"

fun attr_weekday :: "pyval \<Rightarrow> exn + nat" where
  "attr_weekday (PyDatetime d) = Inr (weekday d)"
| "attr_weekday v = Inl (AttributeError ''object has no attribute weekday'')"

text \<open>
  The timestamp preamble shared by feature extraction and rule evaluation:
  \<^verbatim>\<open>
  timestamp = transaction_data.get('timestamp', datetime.now())
  if isinstance(timestamp, str):
      timestamp = datetime.fromisoformat(timestamp.replace('Z', '+00:00'))
  \<close>
\<close>

definition get_timestamp :: "runtime \<Rightarrow> payload \<Rightarrow> exn + pyval" where
  "get_timestamp rt td =
     (case dict_get td ''timestamp'' (PyDatetime (now rt)) of
        PyStr s \<Rightarrow>
          (case fromisoformat rt (replace_Z s) of
             None \<Rightarrow> Inl (ValueError ''Invalid isoformat string'')
           | Some d \<Rightarrow> Inr (PyDatetime d))
      | v \<Rightarrow> Inr v)"

text \<open>\<^verbatim>\<open>numpy.log1p\<close>: a warning, not an exception, outside the domain.\<close>

fun np_log1p :: "npfloat \<Rightarrow> npfloat" where
  "np_log1p (Fin x) = (if x > -1 then Fin (ln (1 + x)) else if x = -1 then NegInf else NaN)"
| "np_log1p PosInf = PosInf"
| "np_log1p NegInf = NaN"
| "np_log1p NaN = NaN"

text \<open>Comparisons of a float with a finite number: every comparison with NaN is false.\<close>

fun np_gt :: "npfloat \<Rightarrow> real \<Rightarrow> bool" where
  "np_gt (Fin x) c = (x > c)"
| "np_gt PosInf c = True"
| "np_gt NegInf c = False"
| "np_gt NaN c = False"

fun np_ge :: "npfloat \<Rightarrow> real \<Rightarrow> bool" where
  "np_ge (Fin x) c = (x \<ge> c)"
| "np_ge PosInf c = True"
| "np_ge NegInf c = False"
| "np_ge NaN c = False"

fun np_lt :: "npfloat \<Rightarrow> real \<Rightarrow> bool" where
  "np_lt (Fin x) c = (x < c)"
| "np_lt PosInf c = False"
| "np_lt NegInf c = True"
| "np_lt NaN c = False"

fun np_eq :: "npfloat \<Rightarrow> real \<Rightarrow> bool" where
  "np_eq (Fin x) c = (x = c)"
| "np_eq PosInf c = False"
| "np_eq NegInf c = False"
| "np_eq NaN c = False"

text \<open>
  The builtins \<^verbatim>\<open>max(a, c)\<close> and \<^verbatim>\<open>min(a, c)\<close> keep their first argument unless the
  second is strictly greater (smaller): a NaN in first place stays.
\<close>

definition py_max :: "npfloat \<Rightarrow> real \<Rightarrow> npfloat" where
  "py_max a c = (if np_lt a c then Fin c else a)"

definition py_min :: "npfloat \<Rightarrow> real \<Rightarrow> npfloat" where
  "py_min a c = (if np_gt a c then Fin c else a)"

text \<open>Float division \<^verbatim>\<open>a / b\<close>: ZeroDivisionError on a zero divisor.\<close>

fun py_div :: "npfloat \<Rightarrow> npfloat \<Rightarrow> exn + npfloat" where
  "py_div NaN b = (if b = Fin 0 then Inl (ZeroDivisionError ''float division by zero'') else Inr NaN)"
| "py_div a NaN = Inr NaN"
| "py_div (Fin x) (Fin y) =
     (if y = 0 then Inl (ZeroDivisionError ''float division by zero'') else Inr (Fin (x / y)))"
| "py_div (Fin x) PosInf = Inr (Fin 0)"
| "py_div (Fin x) NegInf = Inr (Fin 0)"
| "py_div PosInf (Fin y) =
     (if y = 0 then Inl (ZeroDivisionError ''float division by zero'')
      else if y > 0 then Inr PosInf else Inr NegInf)"
| "py_div NegInf (Fin y) =
     (if y = 0 then Inl (ZeroDivisionError ''float division by zero'')
      else if y > 0 then Inr NegInf else Inr PosInf)"
| "py_div PosInf b = Inr NaN"
| "py_div NegInf b = Inr NaN"

text \<open>\<^verbatim>\<open>row[i]\<close> on a one-dimensional array.\<close>

definition np_index :: "'a list \<Rightarrow> nat \<Rightarrow> exn + 'a" where
  "np_index xs i = (if i < length xs then Inr (xs ! i) else Inl (IndexError ''index out of bounds''))"

text \<open>
  \<^verbatim>\<open>round(x, 2)\<close>: the nearest multiple of one hundredth. Within \<open>tie_zone\<close>
  hundredths of a tie the runtime decides the direction (\<open>tie_up\<close>): there the binary
  value of the float and the routine in use decide, and the real number does not.
\<close>

definition tie_zone :: real where
  "tie_zone = 1 / 10 ^ 7"

definition py_round2 :: "runtime \<Rightarrow> real \<Rightarrow> real" where
  "py_round2 rt x =
     (let y = x * 100; f = \<lfloor>y\<rfloor>; d = y - of_int f
      in (if d < 1 / 2 - tie_zone then of_int f
          else if d > 1 / 2 + tie_zone then of_int (f + 1)
          else if tie_up rt x then of_int (f + 1) else of_int f) / 100)"

section \<open>The engine\<close>

record rule =
  name :: string
  type :: string
  threshold :: real
  weight :: real
  description :: string

text \<open>
  The engine instance: its rule set, and the fitted scikit-learn objects as the three calls
  the scorer makes on them (\<^verbatim>\<open>StandardScaler.transform\<close>,
  \<^verbatim>\<open>IsolationForest.decision_function\<close>, \<^verbatim>\<open>RandomForestClassifier.predict_proba\<close>),
  each of which may raise.
\<close>

record engine =
  risk_rules :: "rule list"
  scaler_transform :: "npfloat list list \<Rightarrow> exn + real list list"
  decision_function :: "real list list \<Rightarrow> exn + real list"
  predict_proba :: "real list list \<Rightarrow> exn + real list list"

record settings =
  FRAUD_THRESHOLD :: real

definition default_settings :: settings where
  "default_settings = \<lparr>FRAUD_THRESHOLD = 0.7\<rparr>"

text \<open>
  \<^verbatim>\<open>load_risk_rules\<close>. The engine never reads a rule's description; the euro sign of
  the first one is written \<open>EUR\<close>.
\<close>

definition load_risk_rules :: "rule list" where
  "load_risk_rules =
     [\<lparr>name = ''high_amount_threshold'', type = ''amount'', threshold = 5000, weight = 3,
        description = ''Transactions above EUR 5,000''\<rparr>,
      \<lparr>name = ''foreign_transaction'', type = ''location'', threshold = 1, weight = 2,
        description = ''Transactions outside Ireland''\<rparr>,
      \<lparr>name = ''unusual_time'', type = ''time'', threshold = 1, weight = 1.5,
        description = ''Transactions outside normal hours (22:00-06:00)''\<rparr>,
      \<lparr>name = ''velocity_check'', type = ''velocity'', threshold = 3, weight = 2.5,
        description = ''More than 3 transactions in 10 minutes''\<rparr>,
      \<lparr>name = ''new_merchant'', type = ''pattern'', threshold = 1, weight = 1,
        description = ''First transaction with merchant''\<rparr>]"

text \<open>\<^verbatim>\<open>update_risk_rules\<close>\<close>

definition update_risk_rules :: "engine \<Rightarrow> rule list \<Rightarrow> engine" where
  "update_risk_rules eng new_rules = eng\<lparr>risk_rules := new_rules\<rparr>"

subsection \<open>Feature extraction\<close>

definition channel_map :: "(string \<times> nat) list" where
  "channel_map = [(''online'', 1), (''atm'', 2), (''pos'', 3), (''mobile'', 4)]"

definition type_map :: "(string \<times> nat) list" where
  "type_map = [(''debit'', 1), (''credit'', 2), (''transfer'', 3)]"

definition eu_countries :: "string list" where
  "eu_countries = [''IE'', ''GB'', ''FR'', ''DE'', ''ES'', ''IT'', ''NL'', ''BE'', ''AT'', ''PT'']"

definition high_risk_categories :: "string list" where
  "high_risk_categories = [''gambling'', ''crypto'', ''cash_advance'', ''money_transfer'']"

definition country_risk :: "pyval \<Rightarrow> nat" where
  "country_risk country =
     (if country = PyStr ''IE'' then 0
      else if country \<in> PyStr ` set eu_countries then 1
      else 2)"

definition category_risk :: "pyval \<Rightarrow> nat" where
  "category_risk category = (if category \<in> PyStr ` set high_risk_categories then 2 else 1)"

definition extract_features :: "runtime \<Rightarrow> payload \<Rightarrow> exn + npfloat list list" where
  "extract_features rt td =
     exn_bind (py_float rt (dict_get td ''amount'' (PyInt 0))) (\<lambda>amount.
     exn_bind (get_timestamp rt td) (\<lambda>timestamp.
     exn_bind (attr_hour timestamp) (\<lambda>h.
     exn_bind (attr_weekday timestamp) (\<lambda>wd.
     exn_bind (code_get channel_map (dict_get td ''channel'' (PyStr ''pos'')) 3) (\<lambda>channel.
     exn_bind (code_get type_map (dict_get td ''transaction_type'' (PyStr ''debit'')) 1) (\<lambda>ttype.
     exn_bind (py_float rt (dict_get td ''account_balance'' (PyInt 10000))) (\<lambda>account_balance.
     exn_bind (py_div amount (py_max account_balance 1)) (\<lambda>balance_ratio.
       Inr [[np_log1p amount,
             Fin (real h),
             Fin (real wd),
             Fin (real channel),
             Fin (real (country_risk (dict_get td ''location_country'' (PyStr ''IE'')))),
             Fin (real ttype),
             Fin (real (category_risk (dict_get td ''merchant_category'' (PyStr ''other'')))),
             py_min balance_ratio 2]]))))))))"

subsection \<open>Rule evaluation\<close>

text \<open>The body of the loop up to \<^verbatim>\<open>if triggered:\<close>, for one rule.\<close>

definition rule_triggered :: "payload \<Rightarrow> npfloat \<Rightarrow> pyval \<Rightarrow> rule \<Rightarrow> exn + bool" where
  "rule_triggered td amount timestamp r =
     (if type r = ''amount'' then Inr (np_ge amount (threshold r))
      else if type r = ''location'' then
        Inr (dict_get td ''location_country'' (PyStr ''IE'') \<noteq> PyStr ''IE'')
      else if type r = ''time'' then
        (case attr_hour timestamp of Inl e \<Rightarrow> Inl e | Inr h \<Rightarrow> Inr (h \<ge> 22 \<or> h \<le> 6))
      else if type r = ''velocity'' then
        py_in ''rapid'' (dict_get td ''fraud_indicators'' (PyStr ''''))
      else if type r = ''pattern'' then
        Inr (truthy (dict_get td ''is_new_merchant'' (PyBool False)))
      else Inr False)"

fun rules_loop ::
  "payload \<Rightarrow> npfloat \<Rightarrow> pyval \<Rightarrow> rule list \<Rightarrow> real \<Rightarrow> string list \<Rightarrow> exn + (real \<times> string list)"
where
  "rules_loop td amount timestamp [] total_score triggered_rules =
     Inr (total_score, triggered_rules)"
| "rules_loop td amount timestamp (r # rs) total_score triggered_rules =
     (case rule_triggered td amount timestamp r of
        Inl e \<Rightarrow> Inl e
      | Inr triggered \<Rightarrow>
          if triggered
          then rules_loop td amount timestamp rs (total_score + weight r) (triggered_rules @ [name r])
          else rules_loop td amount timestamp rs total_score triggered_rules)"

definition apply_risk_rules :: "engine \<Rightarrow> runtime \<Rightarrow> payload \<Rightarrow> exn + (real \<times> string list)" where
  "apply_risk_rules eng rt td =
     exn_bind (py_float rt (dict_get td ''amount'' (PyInt 0))) (\<lambda>amount.
     exn_bind (get_timestamp rt td) (\<lambda>timestamp.
     exn_bind (rules_loop td amount timestamp (risk_rules eng) 0 []) (\<lambda>(total_score, triggered_rules).
       Inr (min total_score 10, triggered_rules))))"

subsection \<open>Statistical scoring\<close>

text \<open>The body of the \<^verbatim>\<open>try\<close> block of \<^verbatim>\<open>_apply_ml_models\<close>.\<close>

definition ml_try :: "engine \<Rightarrow> npfloat list list \<Rightarrow> exn + real" where
  "ml_try eng features =
     exn_bind (scaler_transform eng features) (\<lambda>features_scaled.
     exn_bind (decision_function eng features_scaled) (\<lambda>ds.
     exn_bind (np_index ds 0) (\<lambda>anomaly_score.
       (let anomaly_score_normalized = max 0 (min 10 ((0.5 - anomaly_score) * 5)) in
        exn_bind (predict_proba eng features_scaled) (\<lambda>ps.
        exn_bind (np_index ps 0) (\<lambda>row.
        exn_bind (np_index row 1) (\<lambda>fraud_probability.
          (let classification_score = fraud_probability * 10
           in Inr ((anomaly_score_normalized + classification_score) / 2)))))))))"

definition apply_ml_models :: "engine \<Rightarrow> npfloat list list \<Rightarrow> real" where
  "apply_ml_models eng features = (case ml_try eng features of Inl e \<Rightarrow> 0 | Inr s \<Rightarrow> s)"

subsection \<open>Fusion and tiers\<close>

definition combine_scores :: "real \<Rightarrow> real \<Rightarrow> real" where
  "combine_scores rule_score ml_score =
     (let combined_score = (rule_score * 0.6) + (ml_score * 0.4)
      in min combined_score 10.0)"

definition determine_risk_level :: "real \<Rightarrow> string" where
  "determine_risk_level score =
     (if score \<ge> 8.0 then ''critical''
      else if score \<ge> 6.0 then ''high''
      else if score \<ge> 4.0 then ''medium''
      else ''low'')"

subsection \<open>Indicators\<close>

definition rule_descriptions :: "(string \<times> string) list" where
  "rule_descriptions =
     [(''high_amount_threshold'', ''Unusually high transaction amount''),
      (''foreign_transaction'', ''Transaction outside Ireland''),
      (''unusual_time'', ''Transaction at unusual time''),
      (''velocity_check'', ''Multiple rapid transactions''),
      (''new_merchant'', ''First transaction with this merchant'')]"

text \<open>
  \<^verbatim>\<open>
  for rule in triggered_rules:
      if rule in rule_descriptions:
          indicators.append(rule_descriptions[rule])
  \<close>
\<close>

fun describe_loop :: "string list \<Rightarrow> string list \<Rightarrow> string list" where
  "describe_loop [] indicators = indicators"
| "describe_loop (r # rs) indicators =
     (case map_of rule_descriptions r of
        None \<Rightarrow> describe_loop rs indicators
      | Some d \<Rightarrow> describe_loop rs (indicators @ [d]))"

text \<open>
  The list \<^verbatim>\<open>indicators\<close> as it stands just before \<^verbatim>\<open>list(set(indicators))\<close>.
\<close>

definition collect_indicators :: "string list \<Rightarrow> npfloat list list \<Rightarrow> exn + string list" where
  "collect_indicators triggered_rules features =
     (let indicators = describe_loop triggered_rules [] in
      if length features > 0 then
        exn_bind (np_index features 0) (\<lambda>feature_values.
        exn_bind (np_index feature_values 0) (\<lambda>f0.
          (let indicators1 =
                 (if np_gt f0 8
                  then indicators @ [''Amount significantly above normal pattern'']
                  else indicators) in
           exn_bind (np_index feature_values 4) (\<lambda>f4.
             (let indicators2 =
                    (if np_eq f4 2
                     then indicators1 @ [''Transaction from high-risk country'']
                     else indicators1) in
              exn_bind (np_index feature_values 6) (\<lambda>f6.
                Inr (if np_eq f6 2
                     then indicators2 @ [''High-risk merchant category'']
                     else indicators2)))))))
      else Inr indicators)"

definition generate_fraud_indicators ::
  "runtime \<Rightarrow> string list \<Rightarrow> npfloat list list \<Rightarrow> exn + string list" where
  "generate_fraud_indicators rt triggered_rules features =
     exn_bind (collect_indicators triggered_rules features) (\<lambda>indicators.
       Inr (list_of_set rt indicators))"

subsection \<open>The orchestrator\<close>

text \<open>
  The dictionary that \<^verbatim>\<open>analyze_transaction\<close> returns. Both shapes share five keys; the
  keys that only one shape has are optional fields.
\<close>

record analysis_result =
  transaction_id :: pyval
  risk_score :: real
  risk_level :: string
  is_flagged :: bool
  fraud_indicators :: "string list"
  triggered_rules :: "string list option"
  ml_score :: "real option"
  rule_score :: "real option"
  analysis_timestamp :: "string option"
  error :: "string option"

text \<open>The body of the \<^verbatim>\<open>try\<close> block.\<close>

definition analyze_try :: "settings \<Rightarrow> engine \<Rightarrow> runtime \<Rightarrow> payload \<Rightarrow> exn + analysis_result" where
  "analyze_try st eng rt td =
     exn_bind (extract_features rt td) (\<lambda>features.
     exn_bind (apply_risk_rules eng rt td) (\<lambda>(rule_score_v, triggered).
       (let ml_score_v = apply_ml_models eng features;
            final_score = combine_scores rule_score_v ml_score_v;
            level = determine_risk_level final_score in
        exn_bind (generate_fraud_indicators rt triggered features) (\<lambda>indicators.
          Inr \<lparr>transaction_id = dict_get td ''transaction_id'' PyNone,
               risk_score = py_round2 rt final_score,
               risk_level = level,
               is_flagged = (final_score \<ge> FRAUD_THRESHOLD st),
               fraud_indicators = indicators,
               triggered_rules = Some triggered,
               ml_score = Some (py_round2 rt ml_score_v),
               rule_score = Some (py_round2 rt rule_score_v),
               analysis_timestamp = Some (utcnow_isoformat rt),
               error = None\<rparr>))))"

text \<open>The \<^verbatim>\<open>except Exception as e\<close> branch.\<close>

definition degraded_result :: "payload \<Rightarrow> exn \<Rightarrow> analysis_result" where
  "degraded_result td e =
     \<lparr>transaction_id = dict_get td ''transaction_id'' PyNone,
      risk_score = 0.0,
      risk_level = ''unknown'',
      is_flagged = False,
      fraud_indicators = [],
      triggered_rules = None,
      ml_score = None,
      rule_score = None,
      analysis_timestamp = None,
      error = Some (str_exn e)\<rparr>"

definition analyze_transaction :: "settings \<Rightarrow> engine \<Rightarrow> runtime \<Rightarrow> payload \<Rightarrow> analysis_result" where
  "analyze_transaction st eng rt td =
     (case analyze_try st eng rt td of
        Inr result \<Rightarrow> result
      | Inl e \<Rightarrow> degraded_result td e)"

subsection \<open>Triggered rules\<close>

text \<open>A rule is triggered when the loop body sets \<^verbatim>\<open>triggered = True\<close> for it.\<close>

definition triggers :: "payload \<Rightarrow> npfloat \<Rightarrow> pyval \<Rightarrow> rule \<Rightarrow> bool" where
  "triggers td amount timestamp r \<longleftrightarrow> rule_triggered td amount timestamp r = Inr True"

section \<open>Vocabulary of the statements\<close>

text \<open>
  The values \<^verbatim>\<open>float()\<close> accepts: a bool, a float, an integer below the overflow bound,
  a string the parser accepts.
\<close>

fun float_coercible :: "runtime \<Rightarrow> pyval \<Rightarrow> bool" where
  "float_coercible rt (PyBool b) = True"
| "float_coercible rt (PyInt i) = (\<bar>i\<bar> < float_int_bound)"
| "float_coercible rt (PyFloat x) = True"
| "float_coercible rt (PyStr s) = (float_of_str rt s \<noteq> None)"
| "float_coercible rt v = False"

text \<open>
  The time of the event, read off the payload: the datetime under \<^verbatim>\<open>timestamp\<close>, or the
  parse of the string under it once \<^verbatim>\<open>Z\<close> is replaced, or the clock when the payload
  has no timestamp. Any other value, and a string that does not parse, gives none.
\<close>

definition event_timestamp :: "runtime \<Rightarrow> payload \<Rightarrow> datetime option" where
  "event_timestamp rt td =
     (case td ''timestamp'' of
        None \<Rightarrow> Some (now rt)
      | Some (PyDatetime d) \<Rightarrow> Some d
      | Some (PyStr s) \<Rightarrow> fromisoformat rt (replace_Z s)
      | Some v \<Rightarrow> None)"

fun hashable :: "pyval \<Rightarrow> bool" where
  "hashable (PyList vs) = False"
| "hashable v = True"

text \<open>
  The codes of the feature vector as the specification documents them, each with its default
  for a value that is not recognised.
\<close>

definition spec_channel_code :: "pyval \<Rightarrow> nat" where
  "spec_channel_code v =
     (if v = PyStr ''online'' then 1
      else if v = PyStr ''atm'' then 2
      else if v = PyStr ''pos'' then 3
      else if v = PyStr ''mobile'' then 4
      else 3)"

definition spec_type_code :: "pyval \<Rightarrow> nat" where
  "spec_type_code v =
     (if v = PyStr ''debit'' then 1
      else if v = PyStr ''credit'' then 2
      else if v = PyStr ''transfer'' then 3
      else 1)"

definition spec_country_risk :: "pyval \<Rightarrow> nat" where
  "spec_country_risk v =
     (if v = PyStr ''IE'' then 0
      else if v = PyStr ''GB'' \<or> v = PyStr ''FR'' \<or> v = PyStr ''DE'' \<or> v = PyStr ''ES'' \<or>
              v = PyStr ''IT'' \<or> v = PyStr ''NL'' \<or> v = PyStr ''BE'' \<or> v = PyStr ''AT'' \<or>
              v = PyStr ''PT'' then 1
      else 2)"

definition spec_category_risk :: "pyval \<Rightarrow> nat" where
  "spec_category_risk v =
     (if v = PyStr ''gambling'' \<or> v = PyStr ''crypto'' \<or> v = PyStr ''cash_advance'' \<or>
         v = PyStr ''money_transfer'' then 2
      else 1)"

text \<open>
  Insertion-ordered de-duplication, as the specification words it: every string once, at the
  place of its first occurrence. It is the yardstick for \<open>generate_fraud_indicators\<close>, not
  part of the code.
\<close>

fun dedup_from :: "string list \<Rightarrow> string list \<Rightarrow> string list" where
  "dedup_from seen [] = []"
| "dedup_from seen (x # xs) =
     (if x \<in> set seen then dedup_from seen xs else x # dedup_from (seen @ [x]) xs)"

definition insertion_ordered_dedup :: "string list \<Rightarrow> string list" where
  "insertion_ordered_dedup xs = dedup_from [] xs"

section \<open>Concrete engines, runtimes and payloads\<close>

text \<open>
  A runtime whose set of strings iterates in the reverse of insertion order and whose
  rounding sends a tie to the even hundredth, an engine whose fitted objects answer with
  fixed values (or raise), and a few payloads.
\<close>

definition demo_runtime :: runtime where
  "demo_runtime =
     \<lparr>float_of_str =
        map_of [(''125.50'', Fin 125.5), (''0'', Fin 0), (''nan'', NaN), (''inf'', PosInf)],
      fromisoformat = map_of [(''2024-01-15T23:30:00+00:00'', \<lparr>hour = 23, weekday = 0\<rparr>)],
      now = \<lparr>hour = 14, weekday = 2\<rparr>,
      utcnow_isoformat = ''2024-01-15T14:00:00'',
      list_of_set = (\<lambda>xs. rev (remdups xs)),
      tie_up = (\<lambda>x. odd \<lfloor>x * 100\<rfloor>)\<rparr>"

definition demo_engine :: "rule list \<Rightarrow> exn + real \<Rightarrow> exn + real \<Rightarrow> engine" where
  "demo_engine rules dv p =
     \<lparr>risk_rules = rules,
      scaler_transform = (\<lambda>features. Inr [[0, 0, 0, 0, 0, 0, 0, 0]]),
      decision_function = (\<lambda>fs. case dv of Inl e \<Rightarrow> Inl e | Inr d \<Rightarrow> Inr [d]),
      predict_proba = (\<lambda>fs. case p of Inl e \<Rightarrow> Inl e | Inr q \<Rightarrow> Inr [[1 - q, q]])\<rparr>"

definition night_payload :: payload where
  "night_payload =
     [''transaction_id'' \<mapsto> PyStr ''TXN-1'',
      ''amount'' \<mapsto> PyStr ''125.50'',
      ''timestamp'' \<mapsto> PyStr ''2024-01-15T23:30:00Z'']"

definition day_payload :: payload where
  "day_payload =
     [''transaction_id'' \<mapsto> PyStr ''TXN-2'',
      ''amount'' \<mapsto> PyFloat (Fin 125.5),
      ''channel'' \<mapsto> PyStr ''pos'',
      ''location_country'' \<mapsto> PyStr ''IE'']"

text \<open>Six and seven in the morning, as datetime objects.\<close>

definition six_payload :: payload where
  "six_payload =
     [''transaction_id'' \<mapsto> PyStr ''TXN-6'',
      ''amount'' \<mapsto> PyFloat (Fin 125.5),
      ''timestamp'' \<mapsto> PyDatetime \<lparr>hour = 6, weekday = 3\<rparr>]"

definition seven_payload :: payload where
  "seven_payload =
     [''transaction_id'' \<mapsto> PyStr ''TXN-7'',
      ''amount'' \<mapsto> PyFloat (Fin 125.5),
      ''timestamp'' \<mapsto> PyDatetime \<lparr>hour = 7, weekday = 3\<rparr>]"

definition bad_amount_payload :: payload where
  "bad_amount_payload =
     [''transaction_id'' \<mapsto> PyStr ''TXN-3'',
      ''amount'' \<mapsto> PyStr ''abc'']"

definition bad_timestamp_payload :: payload where
  "bad_timestamp_payload =
     [''transaction_id'' \<mapsto> PyStr ''TXN-4'',
      ''amount'' \<mapsto> PyFloat (Fin 50),
      ''timestamp'' \<mapsto> PyStr ''yesterday'']"

text \<open>An account balance too large for a double.\<close>

definition huge_balance_payload :: payload where
  "huge_balance_payload =
     [''transaction_id'' \<mapsto> PyStr ''TXN-5'',
      ''amount'' \<mapsto> PyFloat (Fin 50),
      ''account_balance'' \<mapsto> PyInt (10 ^ 309)]"

text \<open>
  Channel, transaction type, country and merchant category that the engine does not know,
  and no timestamp.
\<close>

definition unrecognised_payload :: payload where
  "unrecognised_payload =
     [''transaction_id'' \<mapsto> PyStr ''TXN-8'',
      ''amount'' \<mapsto> PyStr ''125.50'',
      ''channel'' \<mapsto> PyStr ''telegraph'',
      ''transaction_type'' \<mapsto> PyInt 7,
      ''location_country'' \<mapsto> PyStr ''ZZ'',
      ''merchant_category'' \<mapsto> PyNone]"

text \<open>
  The feature row of a foreign (trusted bloc), first-merchant, online transaction of 2500.
\<close>

definition scenario_row :: "npfloat list" where
  "scenario_row = [Fin 7.82, Fin 14, Fin 2, Fin 1, Fin 1, Fin 1, Fin 1, Fin 0.25]"

text \<open>A rule set that \<^verbatim>\<open>update_risk_rules\<close> accepts, with a negative weight.\<close>

definition rebate_rules :: "rule list" where
  "rebate_rules =
     [\<lparr>name = ''trusted_rebate'', type = ''amount'', threshold = 100, weight = -1,
        description = ''Rebate for established spending''\<rparr>]"

text \<open>The shipped rule of type \<open>time\<close>.\<close>

definition unusual_time_rule :: rule where
  "unusual_time_rule =
     \<lparr>name = ''unusual_time'', type = ''time'', threshold = 1, weight = 1.5,
      description = ''Transactions outside normal hours (22:00-06:00)''\<rparr>"

section \<open>Basic facts\<close>

lemma exn_bind_Inr_iff:
  "exn_bind m f = Inr y \<longleftrightarrow> (\<exists>x. m = Inr x \<and> f x = Inr y)"
  by (cases m) (simp_all add: exn_bind_def)

lemma exn_bind_Inr [simp]: "exn_bind (Inr x) f = f x"
  by (simp add: exn_bind_def)

lemma exn_bind_Inl [simp]: "exn_bind (Inl e) f = Inl e"
  by (simp add: exn_bind_def)

text \<open>The defaults for a missing amount and a missing account balance convert.\<close>

lemma default_ints_convert [simp]: "0 < float_int_bound" "10000 < float_int_bound"
  by (simp_all add: float_int_bound_def)

lemma py_float_Inr_iff: "(\<exists>x. py_float rt v = Inr x) \<longleftrightarrow> float_coercible rt v"
  by (cases v) (auto split: option.splits)

lemma code_get_Inr_iff: "(\<exists>n. code_get table v dflt = Inr n) \<longleftrightarrow> hashable v"
  by (cases v) simp_all

text \<open>
  The timestamp both stages compute is the time of the event as the payload gives it.
\<close>

lemma get_timestamp_event:
  "(get_timestamp rt td = Inr ts \<and> attr_hour ts = Inr h \<and> attr_weekday ts = Inr wd) \<longleftrightarrow>
   (\<exists>d. event_timestamp rt td = Some d \<and> ts = PyDatetime d \<and> h = hour d \<and> wd = weekday d)"
proof (cases "td ''timestamp''")
  case None
  then show ?thesis
    by (auto simp: get_timestamp_def event_timestamp_def dict_get_def)
next
  case (Some v)
  then show ?thesis
    by (cases v)
       (auto simp: get_timestamp_def event_timestamp_def dict_get_def split: option.splits)
qed

lemma get_timestamp_of_event:
  assumes "event_timestamp rt td = Some d"
  shows "get_timestamp rt td = Inr (PyDatetime d)"
  using get_timestamp_event [of rt td "PyDatetime d" "hour d" "weekday d"] assms by simp

text \<open>A datetime in the payload, or a string that parses, is the time of the event.\<close>

lemma event_timestamp_payload:
  assumes "td ''timestamp'' = Some (PyDatetime d) \<or>
           (\<exists>s. td ''timestamp'' = Some (PyStr s) \<and> fromisoformat rt (replace_Z s) = Some d)"
  shows "event_timestamp rt td = Some d"
  using assms by (auto simp: event_timestamp_def)

text \<open>The divisor \<^verbatim>\<open>max(account_balance, 1)\<close> is never zero.\<close>

lemma py_div_py_max: "\<exists>ratio. py_div a (py_max b 1) = Inr ratio"
  by (cases a; cases b) (auto simp: py_max_def)

text \<open>
  The code tables with their \<^verbatim>\<open>get\<close> defaults, and the two membership tests, compute
  the documented codes.
\<close>

lemma channel_code:
  "hashable v \<Longrightarrow> code_get channel_map v 3 = Inr (spec_channel_code v)"
  by (cases v) (auto simp: channel_map_def spec_channel_code_def)

lemma type_code:
  "hashable v \<Longrightarrow> code_get type_map v 1 = Inr (spec_type_code v)"
  by (cases v) (auto simp: type_map_def spec_type_code_def)

lemma country_code: "country_risk v = spec_country_risk v"
  by (auto simp: country_risk_def spec_country_risk_def eu_countries_def)

lemma category_code: "category_risk v = spec_category_risk v"
  by (auto simp: category_risk_def spec_category_risk_def high_risk_categories_def)

text \<open>
  Rounding: a whole number of hundredths is its own rounding, and a score less than half a
  hundredth below a whole number of hundredths, outside the tie zone, rounds up to it.
\<close>

lemma py_round2_exact: "py_round2 rt (of_int k / 100) = of_int k / 100"
  by (simp add: py_round2_def tie_zone_def)

lemma py_round2_zero: "py_round2 rt 0 = 0"
  using py_round2_exact [of rt 0] by simp

lemma py_round2_near:
  assumes "of_int k / 100 - 0.005 + 1 / 10 ^ 9 < f" "f < of_int k / 100"
  shows "py_round2 rt f = of_int k / 100"
proof -
  have lo: "of_int k - 1 / 2 + 1 / 10 ^ 7 < f * 100" using assms(1) by (simp add: field_simps)
  have hi: "f * 100 < of_int k" using assms(2) by (simp add: field_simps)
  have fl: "\<lfloor>f * 100\<rfloor> = k - 1"
    using lo hi by (intro floor_unique) simp_all
  have d: "f * 100 - of_int (k - 1) > 1 / 2 + tie_zone"
    using lo by (simp add: tie_zone_def)
  then have "\<not> f * 100 - of_int (k - 1) < 1 / 2 - tie_zone"
    by (simp add: tie_zone_def)
  with d show ?thesis
    unfolding py_round2_def Let_def fl by simp
qed

subsection \<open>The rule loop\<close>

text \<open>
  When no rule raises, the loop adds the weights of the triggered rules to the running total
  and appends their names in iteration order.
\<close>

lemma rules_loop_ok:
  "\<forall>r \<in> set rs. \<exists>b. rule_triggered td a ts r = Inr b \<Longrightarrow>
   rules_loop td a ts rs tot trig =
     Inr (tot + sum_list (map weight (filter (triggers td a ts) rs)),
          trig @ map name (filter (triggers td a ts) rs))"
proof (induction rs arbitrary: tot trig)
  case Nil
  then show ?case by simp
next
  case (Cons r rs)
  then obtain b where b: "rule_triggered td a ts r = Inr b" by auto
  from Cons.prems have rest: "\<forall>r \<in> set rs. \<exists>b. rule_triggered td a ts r = Inr b" by simp
  show ?case
    using b Cons.IH [OF rest] by (cases b) (simp_all add: triggers_def)
qed

lemma rules_loop_Inr_all:
  "rules_loop td a ts rs tot trig = Inr res \<Longrightarrow>
   \<forall>r \<in> set rs. \<exists>b. rule_triggered td a ts r = Inr b"
proof (induction rs arbitrary: tot trig)
  case Nil
  then show ?case by simp
next
  case (Cons r rs)
  then show ?case
    by (cases "rule_triggered td a ts r") (auto split: if_splits)
qed

lemma apply_risk_rules_Inr:
  assumes "apply_risk_rules eng rt td = Inr (s, names)"
  shows "\<exists>amount ts.
           py_float rt (dict_get td ''amount'' (PyInt 0)) = Inr amount \<and>
           get_timestamp rt td = Inr ts \<and>
           (\<forall>r \<in> set (risk_rules eng). \<exists>b. rule_triggered td amount ts r = Inr b) \<and>
           s = min (sum_list (map weight (filter (triggers td amount ts) (risk_rules eng)))) 10 \<and>
           names = map name (filter (triggers td amount ts) (risk_rules eng))"
proof -
  from assms obtain amount ts tot trig where
    a: "py_float rt (dict_get td ''amount'' (PyInt 0)) = Inr amount" and
    t: "get_timestamp rt td = Inr ts" and
    l: "rules_loop td amount ts (risk_rules eng) 0 [] = Inr (tot, trig)" and
    r: "s = min tot 10" "names = trig"
    by (auto simp: apply_risk_rules_def exn_bind_Inr_iff)
  from rules_loop_Inr_all [OF l]
  have ok: "\<forall>r \<in> set (risk_rules eng). \<exists>b. rule_triggered td amount ts r = Inr b" .
  from rules_loop_ok [OF ok, of 0 "[]"] l
  have "tot = sum_list (map weight (filter (triggers td amount ts) (risk_rules eng)))"
       "trig = map name (filter (triggers td amount ts) (risk_rules eng))"
    by simp_all
  with a t ok r show ?thesis by blast
qed

text \<open>
  On a payload whose timestamp is a datetime and whose \<^verbatim>\<open>fraud_indicators\<close> hint is
  absent or something \<^verbatim>\<open>in\<close> can search, no rule's predicate raises.
\<close>

lemma rule_triggered_typed:
  assumes "py_in ''rapid'' (dict_get td ''fraud_indicators'' (PyStr [])) = Inr v"
  shows "\<exists>b. rule_triggered td amount (PyDatetime d) r = Inr b"
  using assms by (auto simp: rule_triggered_def)

text \<open>The time predicate reads the hour of the datetime it is given, and nothing else.\<close>

lemma time_rule_triggers:
  assumes "type r = ''time''"
  shows "triggers td amount (PyDatetime d) r \<longleftrightarrow> hour d \<ge> 22 \<or> hour d \<le> 6"
  using assms by (simp add: triggers_def rule_triggered_def)

lemma name_in_filtered:
  assumes "distinct (map name rs)" "r \<in> set rs"
  shows "name r \<in> set (map name (filter P rs)) \<longleftrightarrow> P r"
  using assms by (auto simp: distinct_map inj_on_def)

subsection \<open>Feature extraction\<close>

lemma extract_features_shape:
  assumes "extract_features rt td = Inr fs"
  shows "\<exists>row. fs = [row] \<and> length row = 8"
  using assms
  by (auto simp: extract_features_def exn_bind_Inr_iff Let_def)

text \<open>
  The vector extraction builds when none of its fallible steps raises: the documented code
  or default at every position.
\<close>

lemma extract_features_value:
  assumes a: "py_float rt (dict_get td ''amount'' (PyInt 0)) = Inr amount"
      and t: "event_timestamp rt td = Some d"
      and c: "hashable (dict_get td ''channel'' (PyStr ''pos''))"
      and ty: "hashable (dict_get td ''transaction_type'' (PyStr ''debit''))"
      and b: "py_float rt (dict_get td ''account_balance'' (PyInt 10000)) = Inr balance"
  shows "\<exists>ratio. py_div amount (py_max balance 1) = Inr ratio \<and>
           extract_features rt td =
             Inr [[np_log1p amount,
                   Fin (real (hour d)),
                   Fin (real (weekday d)),
                   Fin (real (spec_channel_code (dict_get td ''channel'' (PyStr ''pos'')))),
                   Fin (real (spec_country_risk (dict_get td ''location_country'' (PyStr ''IE'')))),
                   Fin (real (spec_type_code (dict_get td ''transaction_type'' (PyStr ''debit'')))),
                   Fin (real (spec_category_risk (dict_get td ''merchant_category'' (PyStr ''other'')))),
                   py_min ratio 2]]"
proof -
  from py_div_py_max obtain ratio where r: "py_div amount (py_max balance 1) = Inr ratio"
    by blast
  have "extract_features rt td =
             Inr [[np_log1p amount,
                   Fin (real (hour d)),
                   Fin (real (weekday d)),
                   Fin (real (spec_channel_code (dict_get td ''channel'' (PyStr ''pos'')))),
                   Fin (real (spec_country_risk (dict_get td ''location_country'' (PyStr ''IE'')))),
                   Fin (real (spec_type_code (dict_get td ''transaction_type'' (PyStr ''debit'')))),
                   Fin (real (spec_category_risk (dict_get td ''merchant_category'' (PyStr ''other'')))),
                   py_min ratio 2]]"
    unfolding extract_features_def
    using channel_code [OF c] type_code [OF ty]
    by (simp add: a b r get_timestamp_of_event [OF t] country_code category_code)
  with r show ?thesis by blast
qed

text \<open>Extraction succeeds exactly when none of its fallible steps raises.\<close>

lemma extract_features_Inr_iff:
  "(\<exists>fs. extract_features rt td = Inr fs) \<longleftrightarrow>
     float_coercible rt (dict_get td ''amount'' (PyInt 0)) \<and>
     event_timestamp rt td \<noteq> None \<and>
     hashable (dict_get td ''channel'' (PyStr ''pos'')) \<and>
     hashable (dict_get td ''transaction_type'' (PyStr ''debit'')) \<and>
     float_coercible rt (dict_get td ''account_balance'' (PyInt 10000))"
  (is "?L \<longleftrightarrow> ?R")
proof
  assume ?L
  then obtain amount ts h wd channel ttype balance where
    "py_float rt (dict_get td ''amount'' (PyInt 0)) = Inr amount"
    "get_timestamp rt td = Inr ts" "attr_hour ts = Inr h" "attr_weekday ts = Inr wd"
    "code_get channel_map (dict_get td ''channel'' (PyStr ''pos'')) 3 = Inr channel"
    "code_get type_map (dict_get td ''transaction_type'' (PyStr ''debit'')) 1 = Inr ttype"
    "py_float rt (dict_get td ''account_balance'' (PyInt 10000)) = Inr balance"
    unfolding extract_features_def exn_bind_Inr_iff by blast
  then show ?R
    using py_float_Inr_iff code_get_Inr_iff get_timestamp_event [of rt td ts h wd] by blast
next
  assume r: ?R
  from r obtain amount where a: "py_float rt (dict_get td ''amount'' (PyInt 0)) = Inr amount"
    using py_float_Inr_iff by blast
  from r obtain d where t: "event_timestamp rt td = Some d" by blast
  from r obtain balance where
    b: "py_float rt (dict_get td ''account_balance'' (PyInt 10000)) = Inr balance"
    using py_float_Inr_iff by blast
  from r have c: "hashable (dict_get td ''channel'' (PyStr ''pos''))"
    and ty: "hashable (dict_get td ''transaction_type'' (PyStr ''debit''))" by simp_all
  from extract_features_value [OF a t c ty b] show ?L by blast
qed

subsection \<open>Statistical scoring and fusion\<close>

lemma ml_try_bounds:
  assumes "\<forall>fs ps. predict_proba eng fs = Inr ps \<longrightarrow>
             (\<forall>row \<in> set ps. \<forall>p \<in> set row. 0 \<le> p \<and> p \<le> 1)"
      and "ml_try eng features = Inr s"
  shows "0 \<le> s \<and> s \<le> 10"
proof -
  from assms(2) obtain fs ds a ps row p where
    pp: "predict_proba eng fs = Inr ps" and
    row: "np_index ps 0 = Inr row" and
    p: "np_index row 1 = Inr p" and
    s0: "(Inr ((max 0 (min 10 ((0.5 - a) * 5)) + p * 10) / 2) :: exn + real) = Inr s"
    unfolding ml_try_def exn_bind_Inr_iff Let_def by blast
  from s0 have s: "s = (max 0 (min 10 ((0.5 - a) * 5)) + p * 10) / 2" by simp
  from row have "row \<in> set ps" by (auto simp: np_index_def split: if_splits)
  moreover from p have "p \<in> set row" by (auto simp: np_index_def split: if_splits)
  ultimately have "0 \<le> p \<and> p \<le> 1" using assms(1) pp by blast
  then show ?thesis unfolding s by (auto simp: max_def min_def)
qed

lemma apply_ml_models_bounds:
  assumes "\<forall>fs ps. predict_proba eng fs = Inr ps \<longrightarrow>
             (\<forall>row \<in> set ps. \<forall>p \<in> set row. 0 \<le> p \<and> p \<le> 1)"
  shows "0 \<le> apply_ml_models eng features \<and> apply_ml_models eng features \<le> 10"
proof (cases "ml_try eng features")
  case (Inl e)
  then show ?thesis by (simp add: apply_ml_models_def)
next
  case (Inr s)
  with ml_try_bounds [OF assms Inr] show ?thesis by (simp add: apply_ml_models_def)
qed

lemma combine_scores_bounds:
  assumes "0 \<le> r" "0 \<le> m"
  shows "0 \<le> combine_scores r m \<and> combine_scores r m \<le> 10"
  using assms by (simp add: combine_scores_def Let_def min_def)

text \<open>
  What the rule evaluator's cap does guarantee: with weights that are all non-negative (as
  those of \<open>load_risk_rules\<close> are) and a classifier that returns probabilities, the three
  scores lie in [0, 10].
\<close>

lemma score_bounds_nonneg_weights:
  assumes "\<forall>r \<in> set (risk_rules eng). 0 \<le> weight r"
      and "\<forall>fs ps. predict_proba eng fs = Inr ps \<longrightarrow>
             (\<forall>row \<in> set ps. \<forall>p \<in> set row. 0 \<le> p \<and> p \<le> 1)"
      and "apply_risk_rules eng rt td = Inr (rs, names)"
  shows "0 \<le> rs \<and> rs \<le> 10 \<and>
         0 \<le> apply_ml_models eng features \<and> apply_ml_models eng features \<le> 10 \<and>
         0 \<le> combine_scores rs (apply_ml_models eng features) \<and>
         combine_scores rs (apply_ml_models eng features) \<le> 10"
proof -
  from apply_risk_rules_Inr [OF assms(3)] obtain amount ts where
    rs: "rs = min (sum_list (map weight (filter (triggers td amount ts) (risk_rules eng)))) 10"
    by blast
  have "0 \<le> sum_list (map weight (filter (triggers td amount ts) (risk_rules eng)))"
    using assms(1) by (intro sum_list_nonneg) auto
  then have r: "0 \<le> rs \<and> rs \<le> 10" unfolding rs by simp
  note m = apply_ml_models_bounds [OF assms(2), of features]
  from r m combine_scores_bounds [of rs "apply_ml_models eng features"]
  show ?thesis by simp
qed

text \<open>
  Whatever is raised inside the \<^verbatim>\<open>try\<close> block of the scorer, by the scaler or by either
  sub-model, ends the block.
\<close>

lemma ml_try_submodel_raises:
  assumes "scaler_transform eng features = Inr fs"
      and "decision_function eng fs = Inl e \<or> predict_proba eng fs = Inl e"
  shows "\<exists>e'. ml_try eng features = Inl e'"
proof (cases "ml_try eng features")
  case (Inl e')
  then show ?thesis by blast
next
  case (Inr s)
  then obtain fs' ds ps where
    "scaler_transform eng features = Inr fs'"
    "decision_function eng fs' = Inr ds" "predict_proba eng fs' = Inr ps"
    unfolding ml_try_def exn_bind_Inr_iff Let_def by blast
  with assms show ?thesis by auto
qed

lemma demo_ml:
  "apply_ml_models (demo_engine rules (Inr d) (Inr q)) features =
     (max 0 (min 10 ((0.5 - d) * 5)) + q * 10) / 2"
  by (simp add: apply_ml_models_def ml_try_def demo_engine_def np_index_def)

subsection \<open>Indicators\<close>

lemma set_describe_loop:
  "set (describe_loop names acc) =
     set acc \<union> {d. \<exists>n \<in> set names. map_of rule_descriptions n = Some d}"
  by (induction names arbitrary: acc) (auto split: option.splits)

lemma collect_indicators_row:
  assumes "length row = 8"
  shows "\<exists>inds. collect_indicators names [row] = Inr inds"
  using assms by (auto simp: collect_indicators_def np_index_def Let_def)

lemma generate_fraud_indicators_row:
  assumes "length row = 8"
  shows "\<exists>out. generate_fraud_indicators rt names [row] = Inr out"
proof -
  from collect_indicators_row [OF assms] obtain inds
    where "collect_indicators names [row] = Inr inds" by blast
  then show ?thesis by (simp add: generate_fraud_indicators_def)
qed

lemma scenario_collect:
  "collect_indicators [''foreign_transaction'', ''new_merchant''] [scenario_row] =
     Inr [''Transaction outside Ireland'', ''First transaction with this merchant'']"
  by (simp add: collect_indicators_def np_index_def scenario_row_def rule_descriptions_def)

subsection \<open>The orchestrator\<close>

lemma analyze_try_success:
  assumes ex: "extract_features rt td = Inr features"
      and ru: "apply_risk_rules eng rt td = Inr (rs, names)"
  shows "\<exists>inds. generate_fraud_indicators rt names features = Inr inds \<and>
     analyze_try st eng rt td =
       Inr \<lparr>transaction_id = dict_get td ''transaction_id'' PyNone,
            risk_score = py_round2 rt (combine_scores rs (apply_ml_models eng features)),
            risk_level = determine_risk_level (combine_scores rs (apply_ml_models eng features)),
            is_flagged = (combine_scores rs (apply_ml_models eng features) \<ge> FRAUD_THRESHOLD st),
            fraud_indicators = inds,
            triggered_rules = Some names,
            ml_score = Some (py_round2 rt (apply_ml_models eng features)),
            rule_score = Some (py_round2 rt rs),
            analysis_timestamp = Some (utcnow_isoformat rt),
            error = None\<rparr>"
proof -
  from extract_features_shape [OF ex] obtain row
    where row: "features = [row]" "length row = 8" by blast
  from generate_fraud_indicators_row [OF row(2)] obtain inds
    where inds: "generate_fraud_indicators rt names features = Inr inds"
    unfolding row(1) by blast
  show ?thesis
    using ex ru inds by (simp add: analyze_try_def Let_def)
qed

lemma determine_risk_level_known: "determine_risk_level s \<noteq> ''unknown''"
  by (simp add: determine_risk_level_def)

text \<open>
  The \<^verbatim>\<open>try\<close> block fails exactly when feature extraction or rule evaluation raises:
  the statistical scorer absorbs its own failures, and the indicator generator cannot fail on
  a vector that extraction produced.
\<close>

lemma analyze_try_failure:
  "analyze_try st eng rt td = Inl e \<longleftrightarrow>
     extract_features rt td = Inl e \<or>
     (\<exists>features. extract_features rt td = Inr features \<and> apply_risk_rules eng rt td = Inl e)"
proof (cases "extract_features rt td")
  case (Inl e')
  then show ?thesis by (simp add: analyze_try_def)
next
  case (Inr features)
  show ?thesis
  proof (cases "apply_risk_rules eng rt td")
    case (Inl e')
    with Inr show ?thesis by (simp add: analyze_try_def)
  next
    case (Inr res)
    obtain rs names where res: "res = (rs, names)" by (cases res)
    from analyze_try_success [OF \<open>extract_features rt td = Inr features\<close> Inr [unfolded res]]
    obtain r where "analyze_try st eng rt td = Inr r" by blast
    then show ?thesis using \<open>extract_features rt td = Inr features\<close> Inr by simp
  qed
qed

text \<open>The two fields the flag and the reported score live in, on a regular result.\<close>

lemma analyze_score_and_flag:
  assumes "extract_features rt td = Inr features"
      and "apply_risk_rules eng rt td = Inr (rs, names)"
  shows "risk_score (analyze_transaction st eng rt td) =
           py_round2 rt (combine_scores rs (apply_ml_models eng features))"
    and "is_flagged (analyze_transaction st eng rt td) =
           (combine_scores rs (apply_ml_models eng features) \<ge> FRAUD_THRESHOLD st)"
  using analyze_try_success [OF assms, of st]
  by (auto simp: analyze_transaction_def)

subsection \<open>Evaluations on the concrete payloads\<close>

lemma night_amount:
  "py_float demo_runtime (dict_get night_payload ''amount'' (PyInt 0)) = Inr (Fin 125.5)"
  by (simp add: night_payload_def dict_get_def demo_runtime_def)

lemma night_timestamp:
  "get_timestamp demo_runtime night_payload = Inr (PyDatetime \<lparr>hour = 23, weekday = 0\<rparr>)"
  by (simp add: night_payload_def dict_get_def get_timestamp_def demo_runtime_def replace_Z_def)

lemma night_triggers:
  "filter (triggers night_payload (Fin 125.5) (PyDatetime \<lparr>hour = 23, weekday = 0\<rparr>)) load_risk_rules =
     [\<lparr>name = ''unusual_time'', type = ''time'', threshold = 1, weight = 1.5,
        description = ''Transactions outside normal hours (22:00-06:00)''\<rparr>]"
  by (simp add: load_risk_rules_def triggers_def rule_triggered_def night_payload_def dict_get_def)

lemma night_no_raise:
  "\<forall>r \<in> set load_risk_rules.
     \<exists>b. rule_triggered night_payload (Fin 125.5) (PyDatetime \<lparr>hour = 23, weekday = 0\<rparr>) r = Inr b"
  by (auto simp: load_risk_rules_def rule_triggered_def night_payload_def dict_get_def)

lemma night_rules:
  "apply_risk_rules (demo_engine load_risk_rules dv p) demo_runtime night_payload
     = Inr (1.5, [''unusual_time''])"
  by (simp add: apply_risk_rules_def demo_engine_def demo_runtime_def night_payload_def
      dict_get_def get_timestamp_def replace_Z_def load_risk_rules_def rule_triggered_def)

lemma night_features_ex: "\<exists>fs. extract_features demo_runtime night_payload = Inr fs"
  by (simp add: extract_features_Inr_iff)
     (simp add: night_payload_def dict_get_def demo_runtime_def replace_Z_def
        event_timestamp_def)

lemma six_rules:
  "apply_risk_rules (demo_engine load_risk_rules dv p) demo_runtime six_payload
     = Inr (1.5, [''unusual_time''])"
  by (simp add: apply_risk_rules_def demo_engine_def six_payload_def
      dict_get_def get_timestamp_def load_risk_rules_def rule_triggered_def)

lemma seven_rules:
  "apply_risk_rules (demo_engine load_risk_rules dv p) demo_runtime seven_payload
     = Inr (0, [])"
  by (simp add: apply_risk_rules_def demo_engine_def seven_payload_def
      dict_get_def get_timestamp_def load_risk_rules_def rule_triggered_def)

lemma day_amount:
  "py_float demo_runtime (dict_get day_payload ''amount'' (PyInt 0)) = Inr (Fin 125.5)"
  by (simp add: day_payload_def dict_get_def)

lemma day_timestamp:
  "get_timestamp demo_runtime day_payload = Inr (PyDatetime \<lparr>hour = 14, weekday = 2\<rparr>)"
  by (simp add: day_payload_def dict_get_def get_timestamp_def demo_runtime_def)

lemma day_features:
  "extract_features demo_runtime day_payload =
     Inr [[np_log1p (Fin 125.5), Fin 14, Fin 2, Fin 3, Fin 0, Fin 1, Fin 1, Fin 0.01255]]"
  by (simp add: extract_features_def day_amount day_timestamp float_int_bound_def
        py_max_def py_min_def)
     (simp add: day_payload_def dict_get_def channel_map_def type_map_def country_risk_def
        category_risk_def high_risk_categories_def)

lemma day_rules:
  "apply_risk_rules (demo_engine load_risk_rules dv p) demo_runtime day_payload = Inr (0, [])"
  by (simp add: apply_risk_rules_def demo_engine_def day_amount day_timestamp)
     (simp add: load_risk_rules_def rule_triggered_def day_payload_def dict_get_def)

lemma day_analysis:
  "risk_score (analyze_transaction st (demo_engine load_risk_rules (Inr 0.5) (Inr q))
       demo_runtime day_payload) = py_round2 demo_runtime (combine_scores 0 (5 * q)) \<and>
   is_flagged (analyze_transaction st (demo_engine load_risk_rules (Inr 0.5) (Inr q))
       demo_runtime day_payload) = (combine_scores 0 (5 * q) \<ge> FRAUD_THRESHOLD st)"
proof -
  from analyze_try_success [OF day_features day_rules, of st "Inr 0.5" "Inr q"]
  show ?thesis by (auto simp: analyze_transaction_def demo_ml)
qed

lemma bad_amount_features:
  "extract_features demo_runtime bad_amount_payload =
     Inl (ValueError ''could not convert string to float'')"
  by (simp add: extract_features_def bad_amount_payload_def dict_get_def demo_runtime_def)

lemma bad_timestamp_features:
  "extract_features demo_runtime bad_timestamp_payload = Inl (ValueError ''Invalid isoformat string'')"
  by (simp add: extract_features_def bad_timestamp_payload_def dict_get_def demo_runtime_def
      get_timestamp_def replace_Z_def)

text \<open>An integer balance beyond the double range: \<^verbatim>\<open>float\<close> raises OverflowError.\<close>

lemma huge_balance_features:
  "extract_features demo_runtime huge_balance_payload =
     Inl (OverflowError ''int too large to convert to float'')"
  by (simp add: extract_features_def huge_balance_payload_def dict_get_def demo_runtime_def
      get_timestamp_def channel_map_def type_map_def float_int_bound_def)

section \<open>The orchestrator never raises (C1)\<close>

text \<open>
  Claim C1. \<^verbatim>\<open>analyze_transaction\<close> returns a result for every payload and raises
  nothing: its result type has no exception. Whatever a pipeline stage raises (feature
  extraction, or rule evaluation after a successful extraction; by \<open>analyze_try_failure\<close>
  these are the only ways the \<^verbatim>\<open>try\<close> block can fail) is turned into the degraded
  result: risk score 0.0, risk level \<open>unknown\<close>, not flagged, no indicators, and the text
  of the exception under \<open>error\<close>.
\<close>

theorem analyze_transaction_degraded:
  assumes "extract_features rt td = Inl e \<or>
           (\<exists>features. extract_features rt td = Inr features \<and> apply_risk_rules eng rt td = Inl e)"
  shows "analyze_transaction st eng rt td =
           \<lparr>transaction_id = dict_get td ''transaction_id'' PyNone,
            risk_score = 0, risk_level = ''unknown'', is_flagged = False,
            fraud_indicators = [], triggered_rules = None, ml_score = None,
            rule_score = None, analysis_timestamp = None, error = Some (str_exn e)\<rparr>"
proof -
  from assms have "analyze_try st eng rt td = Inl e"
    by (simp add: analyze_try_failure)
  then show ?thesis
    by (simp add: analyze_transaction_def degraded_result_def)
qed

text \<open>An amount that \<^verbatim>\<open>float()\<close> rejects: the caller gets the degraded result.\<close>

theorem analyze_transaction_degraded_witness:
  "extract_features demo_runtime bad_amount_payload =
     Inl (ValueError ''could not convert string to float'') \<and>
   analyze_transaction default_settings (demo_engine load_risk_rules (Inr 0.5) (Inr 0))
       demo_runtime bad_amount_payload =
     \<lparr>transaction_id = PyStr ''TXN-3'',
      risk_score = 0, risk_level = ''unknown'', is_flagged = False,
      fraud_indicators = [], triggered_rules = None, ml_score = None,
      rule_score = None, analysis_timestamp = None,
      error = Some ''could not convert string to float''\<rparr>"
proof -
  have h: "extract_features demo_runtime bad_amount_payload =
             Inl (ValueError ''could not convert string to float'') \<or>
           (\<exists>features. extract_features demo_runtime bad_amount_payload = Inr features \<and>
              apply_risk_rules (demo_engine load_risk_rules (Inr 0.5) (Inr 0)) demo_runtime
                bad_amount_payload = Inl (ValueError ''could not convert string to float''))"
    by (simp add: bad_amount_features)
  have t: "dict_get bad_amount_payload ''transaction_id'' PyNone = PyStr ''TXN-3''"
    by (simp add: bad_amount_payload_def dict_get_def)
  from analyze_transaction_degraded [OF h, of default_settings] t bad_amount_features
  show ?thesis by simp
qed

section \<open>Score bounds (C2)\<close>

text \<open>
  Claim C2. For every transaction event scored against the engine's active rule set and
  fitted models, the rule score, the model score and the fused score each lie in [0, 10].
  The rule evaluator announces this range (\<^verbatim>\<open># Normalize score to 0-10 range\<close>) but only
  caps the total from above, where the scorer clamps on both sides. Here the code is
  evaluated on a rule set with a rule of weight -1, installed by \<^verbatim>\<open>update_risk_rules\<close>,
  and an amount of 125.50 that triggers it: the rule score is -1, the model score is 0, the
  fused score is -0.6, and the caller is handed a risk score of -0.6 and a rule score of -1.
\<close>

theorem negative_weight_rule_score:
  "apply_risk_rules (update_risk_rules (demo_engine load_risk_rules (Inr 0.5) (Inr 0)) rebate_rules)
     demo_runtime day_payload = Inr (-1, [''trusted_rebate'']) \<and>
   apply_ml_models (update_risk_rules (demo_engine load_risk_rules (Inr 0.5) (Inr 0)) rebate_rules)
     [[np_log1p (Fin 125.5), Fin 14, Fin 2, Fin 3, Fin 0, Fin 1, Fin 1, Fin 0.01255]] = 0 \<and>
   combine_scores (-1) 0 = - 0.6 \<and>
   risk_score (analyze_transaction default_settings
     (update_risk_rules (demo_engine load_risk_rules (Inr 0.5) (Inr 0)) rebate_rules)
     demo_runtime day_payload) = - 0.6 \<and>
   rule_score (analyze_transaction default_settings
     (update_risk_rules (demo_engine load_risk_rules (Inr 0.5) (Inr 0)) rebate_rules)
     demo_runtime day_payload) = Some (-1)"
proof -
  let ?eng = "update_risk_rules (demo_engine load_risk_rules (Inr 0.5) (Inr 0)) rebate_rules"
  let ?fs = "[[np_log1p (Fin 125.5), Fin 14, Fin 2, Fin 3, Fin 0, Fin 1, Fin 1, Fin 0.01255]]"
  have r: "apply_risk_rules ?eng demo_runtime day_payload = Inr (-1, [''trusted_rebate''])"
    by (simp add: apply_risk_rules_def update_risk_rules_def demo_engine_def rebate_rules_def
        day_amount day_timestamp rule_triggered_def)
  have m: "apply_ml_models ?eng ?fs = 0"
    by (simp add: update_risk_rules_def demo_engine_def apply_ml_models_def ml_try_def
        np_index_def)
  have c: "combine_scores (-1) 0 = - 0.6"
    by (simp add: combine_scores_def)
  have r1: "py_round2 demo_runtime (- 0.6) = - 0.6"
    using py_round2_exact [of demo_runtime "- 60"] by simp
  have r2: "py_round2 demo_runtime (- 1) = - 1"
    using py_round2_exact [of demo_runtime "- 100"] by simp
  from analyze_try_success [OF day_features r, of default_settings] obtain inds where
    "analyze_try default_settings ?eng demo_runtime day_payload =
       Inr \<lparr>transaction_id = dict_get day_payload ''transaction_id'' PyNone,
            risk_score = py_round2 demo_runtime (combine_scores (-1) (apply_ml_models ?eng ?fs)),
            risk_level = determine_risk_level (combine_scores (-1) (apply_ml_models ?eng ?fs)),
            is_flagged =
              (combine_scores (-1) (apply_ml_models ?eng ?fs) \<ge> FRAUD_THRESHOLD default_settings),
            fraud_indicators = inds,
            triggered_rules = Some [''trusted_rebate''],
            ml_score = Some (py_round2 demo_runtime (apply_ml_models ?eng ?fs)),
            rule_score = Some (py_round2 demo_runtime (-1)),
            analysis_timestamp = Some (utcnow_isoformat demo_runtime),
            error = None\<rparr>"
    by blast
  then have "risk_score (analyze_transaction default_settings ?eng demo_runtime day_payload) = - 0.6"
    and "rule_score (analyze_transaction default_settings ?eng demo_runtime day_payload) = Some (-1)"
    using m c r1 r2 by (simp_all add: analyze_transaction_def)
  with r m c show ?thesis by blast
qed

section \<open>Tiers (C3)\<close>

text \<open>
  Claim C3. The tier classifier gives every score exactly one tier: \<open>critical\<close> exactly
  from 8.0 up, \<open>high\<close> exactly on [6.0, 8.0), \<open>medium\<close> exactly on [4.0, 6.0) and
  \<open>low\<close> exactly below 4.0, so the four intervals leave no gap and do not overlap.
\<close>

theorem determine_risk_level_partition:
  "(determine_risk_level s = ''critical'' \<longleftrightarrow> s \<ge> 8.0) \<and>
   (determine_risk_level s = ''high'' \<longleftrightarrow> 6.0 \<le> s \<and> s < 8.0) \<and>
   (determine_risk_level s = ''medium'' \<longleftrightarrow> 4.0 \<le> s \<and> s < 6.0) \<and>
   (determine_risk_level s = ''low'' \<longleftrightarrow> s < 4.0) \<and>
   determine_risk_level s \<in> {''critical'', ''high'', ''medium'', ''low''}"
  by (simp add: determine_risk_level_def)

section \<open>Fusion (C4)\<close>

text \<open>
  Claim C4. For every rule score \<open>r\<close> and model score \<open>m\<close> the fused score is
  \<open>min (r * 0.6 + m * 0.4) 10.0\<close>.
\<close>

theorem combine_scores_formula:
  "combine_scores r m = min (r * 0.6 + m * 0.4) 10.0"
  by (simp add: combine_scores_def)

section \<open>Rule evaluation (C5)\<close>

text \<open>
  Claim C5. For a rule set with unique names, and a payload on which the evaluator does not
  raise (the amount is coercible, the timestamp is read, no rule's predicate raises), the
  evaluator returns the sum of the weights of the triggered rules capped at 10.0, together
  with the names of the triggered rules in rule-set iteration order, without duplicates.
\<close>

theorem rule_evaluator_score_and_order:
  assumes "distinct (map name (risk_rules eng))"
      and "py_float rt (dict_get td ''amount'' (PyInt 0)) = Inr amount"
      and "get_timestamp rt td = Inr ts"
      and "\<forall>r \<in> set (risk_rules eng). \<exists>b. rule_triggered td amount ts r = Inr b"
  shows "apply_risk_rules eng rt td =
           Inr (min (sum_list (map weight (filter (triggers td amount ts) (risk_rules eng)))) 10.0,
                map name (filter (triggers td amount ts) (risk_rules eng))) \<and>
         distinct (map name (filter (triggers td amount ts) (risk_rules eng)))"
proof
  show "apply_risk_rules eng rt td =
           Inr (min (sum_list (map weight (filter (triggers td amount ts) (risk_rules eng)))) 10.0,
                map name (filter (triggers td amount ts) (risk_rules eng)))"
    using assms(2,3) rules_loop_ok [OF assms(4), of 0 "[]"]
    by (simp add: apply_risk_rules_def)
  show "distinct (map name (filter (triggers td amount ts) (risk_rules eng)))"
    using assms(1) by (rule distinct_map_filter)
qed

theorem rule_evaluator_score_and_order_witness:
  "apply_risk_rules (demo_engine load_risk_rules (Inr 0.5) (Inr 0)) demo_runtime night_payload
     = Inr (min 1.5 10.0, [''unusual_time'']) \<and> distinct [''unusual_time'']"
proof -
  let ?eng = "demo_engine load_risk_rules (Inr 0.5) (Inr 0)"
  have r: "risk_rules ?eng = load_risk_rules" by (simp add: demo_engine_def)
  have h1: "distinct (map name (risk_rules ?eng))"
    by (simp add: demo_engine_def load_risk_rules_def)
  have h4: "\<forall>r \<in> set (risk_rules ?eng).
     \<exists>b. rule_triggered night_payload (Fin 125.5) (PyDatetime \<lparr>hour = 23, weekday = 0\<rparr>) r = Inr b"
    unfolding r by (rule night_no_raise)
  from rule_evaluator_score_and_order [OF h1 night_amount night_timestamp h4]
  show ?thesis unfolding r night_triggers by simp
qed

section \<open>Indicators (C6)\<close>

text \<open>
  Claim C6, as the code has it. \<^verbatim>\<open>list(set(indicators))\<close> leaves the order to the
  interpreter's set. Whenever that set does what a set does (it yields every element of the
  list once), the generator returns, for every list of rule names and every feature row of
  length 8, a list without duplicates that holds exactly the phrases of the named rules that
  have a description and of the three feature checks that fire; the order is the set's
  iteration order, which need not be the order of first insertion.
\<close>

theorem indicators_deduplicated:
  assumes "\<forall>xs. distinct (list_of_set rt xs) \<and> set (list_of_set rt xs) = set xs"
      and "length row = 8"
  shows "\<exists>out. generate_fraud_indicators rt names [row] = Inr out \<and> distinct out \<and>
           set out =
             {d. \<exists>n \<in> set names. map_of rule_descriptions n = Some d} \<union>
             (if np_gt (row ! 0) 8 then {''Amount significantly above normal pattern''} else {}) \<union>
             (if np_eq (row ! 4) 2 then {''Transaction from high-risk country''} else {}) \<union>
             (if np_eq (row ! 6) 2 then {''High-risk merchant category''} else {})"
proof -
  have "\<exists>inds. collect_indicators names [row] = Inr inds \<and>
          set inds =
             {d. \<exists>n \<in> set names. map_of rule_descriptions n = Some d} \<union>
             (if np_gt (row ! 0) 8 then {''Amount significantly above normal pattern''} else {}) \<union>
             (if np_eq (row ! 4) 2 then {''Transaction from high-risk country''} else {}) \<union>
             (if np_eq (row ! 6) 2 then {''High-risk merchant category''} else {})"
    using assms(2)
    by (auto simp: collect_indicators_def np_index_def Let_def set_describe_loop)
  then obtain inds where
    c: "collect_indicators names [row] = Inr inds" and
    s: "set inds =
             {d. \<exists>n \<in> set names. map_of rule_descriptions n = Some d} \<union>
             (if np_gt (row ! 0) 8 then {''Amount significantly above normal pattern''} else {}) \<union>
             (if np_eq (row ! 4) 2 then {''Transaction from high-risk country''} else {}) \<union>
             (if np_eq (row ! 6) 2 then {''High-risk merchant category''} else {})"
    by blast
  have "generate_fraud_indicators rt names [row] = Inr (list_of_set rt inds)"
    using c by (simp add: generate_fraud_indicators_def)
  moreover have "distinct (list_of_set rt inds)" "set (list_of_set rt inds) = set inds"
    using assms(1) by simp_all
  ultimately show ?thesis using s by simp
qed

theorem indicators_deduplicated_witness:
  "generate_fraud_indicators demo_runtime [''foreign_transaction'', ''new_merchant''] [scenario_row] =
     Inr [''First transaction with this merchant'', ''Transaction outside Ireland''] \<and>
   distinct [''First transaction with this merchant'', ''Transaction outside Ireland'']"
proof -
  have h1: "\<forall>xs. distinct (list_of_set demo_runtime xs) \<and> set (list_of_set demo_runtime xs) = set xs"
    by (simp add: demo_runtime_def)
  have h2: "length scenario_row = 8" by (simp add: scenario_row_def)
  from indicators_deduplicated [OF h1 h2, of "[''foreign_transaction'', ''new_merchant'']"]
  show ?thesis
    by (simp add: generate_fraud_indicators_def scenario_collect demo_runtime_def)
qed

text \<open>
  The foreign and new-merchant rules put their two phrases into the list in that order, and
  insertion-ordered de-duplication would keep it; a set that iterates the other way round
  returns them reversed.
\<close>

theorem indicators_not_insertion_ordered:
  "collect_indicators [''foreign_transaction'', ''new_merchant''] [scenario_row] =
     Inr [''Transaction outside Ireland'', ''First transaction with this merchant''] \<and>
   insertion_ordered_dedup [''Transaction outside Ireland'', ''First transaction with this merchant''] =
     [''Transaction outside Ireland'', ''First transaction with this merchant''] \<and>
   generate_fraud_indicators demo_runtime [''foreign_transaction'', ''new_merchant''] [scenario_row] =
     Inr [''First transaction with this merchant'', ''Transaction outside Ireland'']"
  by (simp add: generate_fraud_indicators_def scenario_collect demo_runtime_def
      insertion_ordered_dedup_def)

section \<open>A failing sub-model (C7)\<close>

text \<open>
  Claim C7. When anything raises inside the scorer's \<^verbatim>\<open>try\<close> block on the extracted
  feature vector (by \<open>ml_try_submodel_raises\<close>, either sub-model raising is such a case),
  the scorer returns 0.0, and \<^verbatim>\<open>analyze_transaction\<close> still returns a regular result:
  no error, a risk level other than \<open>unknown\<close>, and score, level and flag computed from the
  rule score alone, that is from \<open>min (rule_score * 0.6) 10\<close>.
\<close>

theorem ml_failure_rule_only:
  assumes "extract_features rt td = Inr features"
      and "apply_risk_rules eng rt td = Inr (rs, names)"
      and "ml_try eng features = Inl e"
  shows "apply_ml_models eng features = 0 \<and>
         error (analyze_transaction st eng rt td) = None \<and>
         risk_level (analyze_transaction st eng rt td) \<noteq> ''unknown'' \<and>
         risk_level (analyze_transaction st eng rt td) = determine_risk_level (min (rs * 0.6) 10) \<and>
         risk_score (analyze_transaction st eng rt td) = py_round2 rt (min (rs * 0.6) 10) \<and>
         is_flagged (analyze_transaction st eng rt td) = (min (rs * 0.6) 10 \<ge> FRAUD_THRESHOLD st) \<and>
         triggered_rules (analyze_transaction st eng rt td) = Some names \<and>
         ml_score (analyze_transaction st eng rt td) = Some 0"
proof -
  have ml: "apply_ml_models eng features = 0"
    using assms(3) by (simp add: apply_ml_models_def)
  have c: "combine_scores rs 0 = min (rs * 0.6) 10"
    by (simp add: combine_scores_def)
  note z = py_round2_zero [of rt]
  from analyze_try_success [OF assms(1,2), of st] obtain inds where
    "analyze_try st eng rt td =
       Inr \<lparr>transaction_id = dict_get td ''transaction_id'' PyNone,
            risk_score = py_round2 rt (combine_scores rs (apply_ml_models eng features)),
            risk_level = determine_risk_level (combine_scores rs (apply_ml_models eng features)),
            is_flagged = (combine_scores rs (apply_ml_models eng features) \<ge> FRAUD_THRESHOLD st),
            fraud_indicators = inds,
            triggered_rules = Some names,
            ml_score = Some (py_round2 rt (apply_ml_models eng features)),
            rule_score = Some (py_round2 rt rs),
            analysis_timestamp = Some (utcnow_isoformat rt),
            error = None\<rparr>"
    by blast
  then show ?thesis
    using ml c z determine_risk_level_known [of "min (rs * 0.6) 10"]
    by (simp add: analyze_transaction_def)
qed

text \<open>
  The anomaly model raises on a night-time transaction: the unusual-time rule alone gives
  0.6 * 1.5 = 0.9, tier \<open>low\<close>.
\<close>

theorem ml_failure_rule_only_witness:
  "apply_ml_models (demo_engine load_risk_rules (Inl (LibraryError ''X has 9 features'')) (Inr 0.2))
     [scenario_row] = 0 \<and>
   risk_level (analyze_transaction default_settings
      (demo_engine load_risk_rules (Inl (LibraryError ''X has 9 features'')) (Inr 0.2))
      demo_runtime night_payload) = ''low'' \<and>
   risk_score (analyze_transaction default_settings
      (demo_engine load_risk_rules (Inl (LibraryError ''X has 9 features'')) (Inr 0.2))
      demo_runtime night_payload) = 0.9 \<and>
   error (analyze_transaction default_settings
      (demo_engine load_risk_rules (Inl (LibraryError ''X has 9 features'')) (Inr 0.2))
      demo_runtime night_payload) = None \<and>
   triggered_rules (analyze_transaction default_settings
      (demo_engine load_risk_rules (Inl (LibraryError ''X has 9 features'')) (Inr 0.2))
      demo_runtime night_payload) = Some [''unusual_time'']"
proof -
  let ?e = "LibraryError ''X has 9 features''"
  let ?eng = "demo_engine load_risk_rules (Inl ?e) (Inr 0.2)"
  from night_features_ex obtain fs where
    h1: "extract_features demo_runtime night_payload = Inr fs" by blast
  have h2: "apply_risk_rules ?eng demo_runtime night_payload = Inr (1.5, [''unusual_time''])"
    by (rule night_rules)
  have h3: "ml_try ?eng fs = Inl ?e" for fs
    by (simp add: ml_try_def demo_engine_def)
  have m: "apply_ml_models ?eng [scenario_row] = 0"
    using h3 [of "[scenario_row]"] by (simp add: apply_ml_models_def)
  have r: "py_round2 demo_runtime (9 / 10) = 9 / 10"
    using py_round2_exact [of demo_runtime 90] by simp
  from ml_failure_rule_only [OF h1 h2 h3, of default_settings] m r
  show ?thesis by (simp add: determine_risk_level_def)
qed

section \<open>Malformed fields (C8)\<close>

text \<open>
  Claim C8, as the code has it. Feature extraction recovers locally, through the documented
  defaults, from a field that is missing and from a channel, transaction type, country or
  merchant category it does not recognise: whenever its fallible steps succeed, the vector
  holds the documented code or default at every position. It raises exactly when the amount
  or the account balance is not something \<^verbatim>\<open>float()\<close> accepts (a string that does not
  parse, an integer beyond the double range, None, a datetime, a list), the timestamp is
  neither a datetime nor a string \<^verbatim>\<open>fromisoformat\<close> parses, or the channel or transaction
  type is unhashable. When it raises, the error is surfaced: \<^verbatim>\<open>analyze_transaction\<close>
  returns the degraded result with risk level \<open>unknown\<close> and the text of the exception.
\<close>

theorem extract_features_raises_exactly:
  "((\<exists>fs. extract_features rt td = Inr fs) \<longleftrightarrow>
      float_coercible rt (dict_get td ''amount'' (PyInt 0)) \<and>
      event_timestamp rt td \<noteq> None \<and>
      hashable (dict_get td ''channel'' (PyStr ''pos'')) \<and>
      hashable (dict_get td ''transaction_type'' (PyStr ''debit'')) \<and>
      float_coercible rt (dict_get td ''account_balance'' (PyInt 10000))) \<and>
   (extract_features rt td = Inl e \<longrightarrow>
      risk_level (analyze_transaction st eng rt td) = ''unknown'' \<and>
      error (analyze_transaction st eng rt td) = Some (str_exn e)) \<and>
   (py_float rt (dict_get td ''amount'' (PyInt 0)) = Inr amount \<and>
    event_timestamp rt td = Some d \<and>
    hashable (dict_get td ''channel'' (PyStr ''pos'')) \<and>
    hashable (dict_get td ''transaction_type'' (PyStr ''debit'')) \<and>
    py_float rt (dict_get td ''account_balance'' (PyInt 10000)) = Inr balance \<longrightarrow>
      (\<exists>ratio. py_div amount (py_max balance 1) = Inr ratio \<and>
         extract_features rt td =
           Inr [[np_log1p amount,
                 Fin (real (hour d)),
                 Fin (real (weekday d)),
                 Fin (real (spec_channel_code (dict_get td ''channel'' (PyStr ''pos'')))),
                 Fin (real (spec_country_risk (dict_get td ''location_country'' (PyStr ''IE'')))),
                 Fin (real (spec_type_code (dict_get td ''transaction_type'' (PyStr ''debit'')))),
                 Fin (real (spec_category_risk (dict_get td ''merchant_category'' (PyStr ''other'')))),
                 py_min ratio 2]]))"
proof (intro conjI impI)
  show "(\<exists>fs. extract_features rt td = Inr fs) \<longleftrightarrow>
      float_coercible rt (dict_get td ''amount'' (PyInt 0)) \<and>
      event_timestamp rt td \<noteq> None \<and>
      hashable (dict_get td ''channel'' (PyStr ''pos'')) \<and>
      hashable (dict_get td ''transaction_type'' (PyStr ''debit'')) \<and>
      float_coercible rt (dict_get td ''account_balance'' (PyInt 10000))"
    by (rule extract_features_Inr_iff)
next
  assume "extract_features rt td = Inl e"
  then have f: "analyze_try st eng rt td = Inl e" by (simp add: analyze_try_failure)
  show "risk_level (analyze_transaction st eng rt td) = ''unknown''"
    using f by (simp add: analyze_transaction_def degraded_result_def)
  show "error (analyze_transaction st eng rt td) = Some (str_exn e)"
    using f by (simp add: analyze_transaction_def degraded_result_def)
next
  assume h: "py_float rt (dict_get td ''amount'' (PyInt 0)) = Inr amount \<and>
    event_timestamp rt td = Some d \<and>
    hashable (dict_get td ''channel'' (PyStr ''pos'')) \<and>
    hashable (dict_get td ''transaction_type'' (PyStr ''debit'')) \<and>
    py_float rt (dict_get td ''account_balance'' (PyInt 10000)) = Inr balance"
  then have a: "py_float rt (dict_get td ''amount'' (PyInt 0)) = Inr amount"
    and t: "event_timestamp rt td = Some d"
    and c: "hashable (dict_get td ''channel'' (PyStr ''pos''))"
    and ty: "hashable (dict_get td ''transaction_type'' (PyStr ''debit''))"
    and b: "py_float rt (dict_get td ''account_balance'' (PyInt 10000)) = Inr balance"
    by simp_all
  show "\<exists>ratio. py_div amount (py_max balance 1) = Inr ratio \<and>
         extract_features rt td =
           Inr [[np_log1p amount,
                 Fin (real (hour d)),
                 Fin (real (weekday d)),
                 Fin (real (spec_channel_code (dict_get td ''channel'' (PyStr ''pos'')))),
                 Fin (real (spec_country_risk (dict_get td ''location_country'' (PyStr ''IE'')))),
                 Fin (real (spec_type_code (dict_get td ''transaction_type'' (PyStr ''debit'')))),
                 Fin (real (spec_category_risk (dict_get td ''merchant_category'' (PyStr ''other'')))),
                 py_min ratio 2]]"
    by (rule extract_features_value [OF a t c ty b])
qed

text \<open>
  A payload whose channel, transaction type, country and merchant category are unknown to
  the engine and whose timestamp and balance are missing gets the defaults; an amount that
  does not parse, and a balance beyond the double range, raise and give \<open>unknown\<close>.
\<close>

theorem extract_features_raises_exactly_witness:
  "extract_features demo_runtime unrecognised_payload =
     Inr [[np_log1p (Fin 125.5), Fin 14, Fin 2, Fin 3, Fin 2, Fin 1, Fin 1, Fin 0.01255]] \<and>
   extract_features demo_runtime bad_amount_payload =
     Inl (ValueError ''could not convert string to float'') \<and>
   \<not> float_coercible demo_runtime (dict_get bad_amount_payload ''amount'' (PyInt 0)) \<and>
   risk_level (analyze_transaction default_settings (demo_engine load_risk_rules (Inr 0.5) (Inr 0))
     demo_runtime bad_amount_payload) = ''unknown'' \<and>
   error (analyze_transaction default_settings (demo_engine load_risk_rules (Inr 0.5) (Inr 0))
     demo_runtime bad_amount_payload) = Some ''could not convert string to float'' \<and>
   extract_features demo_runtime huge_balance_payload =
     Inl (OverflowError ''int too large to convert to float'') \<and>
   risk_level (analyze_transaction default_settings (demo_engine load_risk_rules (Inr 0.5) (Inr 0))
     demo_runtime huge_balance_payload) = ''unknown''"
proof -
  let ?eng = "demo_engine load_risk_rules (Inr 0.5) (Inr 0)"
  have n: "\<not> float_coercible demo_runtime (dict_get bad_amount_payload ''amount'' (PyInt 0))"
    by (simp add: bad_amount_payload_def dict_get_def demo_runtime_def)
  note bad = extract_features_raises_exactly
    [of demo_runtime bad_amount_payload "ValueError ''could not convert string to float''"
        default_settings ?eng]
  note huge = extract_features_raises_exactly
    [of demo_runtime huge_balance_payload "OverflowError ''int too large to convert to float''"
        default_settings ?eng]
  have h: "py_float demo_runtime (dict_get unrecognised_payload ''amount'' (PyInt 0)) = Inr (Fin 125.5) \<and>
    event_timestamp demo_runtime unrecognised_payload = Some \<lparr>hour = 14, weekday = 2\<rparr> \<and>
    hashable (dict_get unrecognised_payload ''channel'' (PyStr ''pos'')) \<and>
    hashable (dict_get unrecognised_payload ''transaction_type'' (PyStr ''debit'')) \<and>
    py_float demo_runtime (dict_get unrecognised_payload ''account_balance'' (PyInt 10000)) =
      Inr (Fin 10000)"
    by (simp add: unrecognised_payload_def dict_get_def demo_runtime_def event_timestamp_def)
  from extract_features_raises_exactly
    [of demo_runtime unrecognised_payload _ _ _ "Fin 125.5" "\<lparr>hour = 14, weekday = 2\<rparr>" "Fin 10000"] h
  obtain ratio where
    r: "py_div (Fin 125.5) (py_max (Fin 10000) 1) = Inr ratio" and
    v: "extract_features demo_runtime unrecognised_payload =
           Inr [[np_log1p (Fin 125.5),
                 Fin (real (hour \<lparr>hour = 14, weekday = 2\<rparr>)),
                 Fin (real (weekday \<lparr>hour = 14, weekday = 2\<rparr>)),
                 Fin (real (spec_channel_code (dict_get unrecognised_payload ''channel'' (PyStr ''pos'')))),
                 Fin (real (spec_country_risk (dict_get unrecognised_payload ''location_country'' (PyStr ''IE'')))),
                 Fin (real (spec_type_code (dict_get unrecognised_payload ''transaction_type'' (PyStr ''debit'')))),
                 Fin (real (spec_category_risk (dict_get unrecognised_payload ''merchant_category'' (PyStr ''other'')))),
                 py_min ratio 2]]"
    by blast
  from r have ratio: "ratio = Fin 0.01255" by (simp add: py_max_def)
  have u: "extract_features demo_runtime unrecognised_payload =
     Inr [[np_log1p (Fin 125.5), Fin 14, Fin 2, Fin 3, Fin 2, Fin 1, Fin 1, Fin 0.01255]]"
    unfolding v ratio
    by (simp add: unrecognised_payload_def dict_get_def spec_channel_code_def
        spec_country_risk_def spec_type_code_def spec_category_risk_def py_min_def)
  from bad bad_amount_features
  have b1: "risk_level (analyze_transaction default_settings ?eng demo_runtime bad_amount_payload) =
      ''unknown''"
    and b2: "error (analyze_transaction default_settings ?eng demo_runtime bad_amount_payload) =
      Some ''could not convert string to float''"
    by simp_all
  from huge huge_balance_features
  have h1: "risk_level (analyze_transaction default_settings ?eng demo_runtime huge_balance_payload) =
      ''unknown''"
    by simp
  from u bad_amount_features n b1 b2 huge_balance_features h1 show ?thesis by blast
qed

text \<open>
  A timestamp string that is no ISO date: extraction raises, and the caller gets the
  degraded \<open>unknown\<close> result.
\<close>

theorem unparsable_timestamp_surfaces:
  "extract_features demo_runtime bad_timestamp_payload =
     Inl (ValueError ''Invalid isoformat string'') \<and>
   analyze_transaction default_settings (demo_engine load_risk_rules (Inr 0.5) (Inr 0))
     demo_runtime bad_timestamp_payload =
     \<lparr>transaction_id = PyStr ''TXN-4'',
      risk_score = 0, risk_level = ''unknown'', is_flagged = False,
      fraud_indicators = [], triggered_rules = None, ml_score = None,
      rule_score = None, analysis_timestamp = None,
      error = Some ''Invalid isoformat string''\<rparr>"
proof -
  have "analyze_try default_settings (demo_engine load_risk_rules (Inr 0.5) (Inr 0))
     demo_runtime bad_timestamp_payload = Inl (ValueError ''Invalid isoformat string'')"
    by (simp add: analyze_try_failure bad_timestamp_features)
  moreover have "dict_get bad_timestamp_payload ''transaction_id'' PyNone = PyStr ''TXN-4''"
    by (simp add: bad_timestamp_payload_def dict_get_def)
  ultimately show ?thesis
    by (simp add: analyze_transaction_def degraded_result_def bad_timestamp_features)
qed

section \<open>The time rule (C9)\<close>

text \<open>
  Claim C9. Let the event carry its time under \<^verbatim>\<open>timestamp\<close>, as a datetime or as a string
  that parses to one, and let \<open>d\<close> be that time. Whenever rule evaluation returns, the
  triggered names are the names of the rules that trigger on the event at \<open>d\<close>, in
  iteration order, and a rule of type \<open>time\<close> triggers exactly when the hour of \<open>d\<close> is at
  least 22 or at most 6: 23 and 6 trigger it, 7 does not. In a rule set with unique names
  this is the same as the rule's name being among the triggered names.
\<close>

theorem time_rule_window:
  assumes "td ''timestamp'' = Some (PyDatetime d) \<or>
           (\<exists>s. td ''timestamp'' = Some (PyStr s) \<and> fromisoformat rt (replace_Z s) = Some d)"
      and "apply_risk_rules eng rt td = Inr (s, names)"
  shows "\<exists>amount.
           py_float rt (dict_get td ''amount'' (PyInt 0)) = Inr amount \<and>
           names = map name (filter (triggers td amount (PyDatetime d)) (risk_rules eng)) \<and>
           (\<forall>r. type r = ''time'' \<longrightarrow>
              (triggers td amount (PyDatetime d) r \<longleftrightarrow> hour d \<ge> 22 \<or> hour d \<le> 6)) \<and>
           (distinct (map name (risk_rules eng)) \<longrightarrow>
              (\<forall>r \<in> set (risk_rules eng). type r = ''time'' \<longrightarrow>
                 (name r \<in> set names \<longleftrightarrow> hour d \<ge> 22 \<or> hour d \<le> 6)))"
proof -
  have ev: "event_timestamp rt td = Some d"
    using assms(1) by (rule event_timestamp_payload [of td d rt])
  from get_timestamp_of_event [OF ev]
  have gt: "get_timestamp rt td = Inr (PyDatetime d)" .
  from apply_risk_rules_Inr [OF assms(2)] obtain amount ts where
    a: "py_float rt (dict_get td ''amount'' (PyInt 0)) = Inr amount" and
    t: "get_timestamp rt td = Inr ts" and
    n: "names = map name (filter (triggers td amount ts) (risk_rules eng))"
    by blast
  from t gt have ts: "ts = PyDatetime d" by simp
  have w: "\<forall>r. type r = ''time'' \<longrightarrow>
              (triggers td amount (PyDatetime d) r \<longleftrightarrow> hour d \<ge> 22 \<or> hour d \<le> 6)"
    by (simp add: time_rule_triggers)
  have u: "distinct (map name (risk_rules eng)) \<longrightarrow>
              (\<forall>r \<in> set (risk_rules eng). type r = ''time'' \<longrightarrow>
                 (name r \<in> set names \<longleftrightarrow> hour d \<ge> 22 \<or> hour d \<le> 6))"
  proof (intro impI ballI)
    fix r
    assume dis: "distinct (map name (risk_rules eng))"
      and mem: "r \<in> set (risk_rules eng)" and ty: "type r = ''time''"
    have "name r \<in> set names \<longleftrightarrow> triggers td amount (PyDatetime d) r"
      unfolding n ts by (rule name_in_filtered [OF dis mem])
    also have "\<dots> \<longleftrightarrow> hour d \<ge> 22 \<or> hour d \<le> 6"
      by (rule time_rule_triggers [OF ty])
    finally show "name r \<in> set names \<longleftrightarrow> hour d \<ge> 22 \<or> hour d \<le> 6" .
  qed
  from a n [unfolded ts] w u show ?thesis by blast
qed

text \<open>
  The shipped rule set on three events: 23:30 given as a string, 6:00 and 7:00 given as
  datetime objects. The clock of the runtime shows 14:00 throughout.
\<close>

theorem time_rule_window_witness:
  "apply_risk_rules (demo_engine load_risk_rules (Inr 0.5) (Inr 0)) demo_runtime night_payload
     = Inr (1.5, [''unusual_time'']) \<and>
   triggers night_payload (Fin 125.5) (PyDatetime \<lparr>hour = 23, weekday = 0\<rparr>) unusual_time_rule \<and>
   apply_risk_rules (demo_engine load_risk_rules (Inr 0.5) (Inr 0)) demo_runtime six_payload
     = Inr (1.5, [''unusual_time'']) \<and>
   triggers six_payload (Fin 125.5) (PyDatetime \<lparr>hour = 6, weekday = 3\<rparr>) unusual_time_rule \<and>
   apply_risk_rules (demo_engine load_risk_rules (Inr 0.5) (Inr 0)) demo_runtime seven_payload
     = Inr (0, []) \<and>
   \<not> triggers seven_payload (Fin 125.5) (PyDatetime \<lparr>hour = 7, weekday = 3\<rparr>) unusual_time_rule"
proof -
  let ?eng = "demo_engine load_risk_rules (Inr 0.5) (Inr 0)"
  have ty: "type unusual_time_rule = ''time''" by (simp add: unusual_time_rule_def)
  have n1: "night_payload ''timestamp'' = Some (PyDatetime \<lparr>hour = 23, weekday = 0\<rparr>) \<or>
     (\<exists>s. night_payload ''timestamp'' = Some (PyStr s) \<and>
          fromisoformat demo_runtime (replace_Z s) = Some \<lparr>hour = 23, weekday = 0\<rparr>)"
    by (simp add: night_payload_def demo_runtime_def replace_Z_def)
  have n2: "apply_risk_rules ?eng demo_runtime night_payload = Inr (1.5, [''unusual_time''])"
    by (rule night_rules)
  from time_rule_window [OF n1 n2] obtain a1 where
    "py_float demo_runtime (dict_get night_payload ''amount'' (PyInt 0)) = Inr a1"
    "\<forall>r. type r = ''time'' \<longrightarrow>
       (triggers night_payload a1 (PyDatetime \<lparr>hour = 23, weekday = 0\<rparr>) r \<longleftrightarrow>
          hour \<lparr>hour = 23, weekday = 0\<rparr> \<ge> 22 \<or> hour \<lparr>hour = 23, weekday = 0\<rparr> \<le> 6)"
    by blast
  with night_amount ty
  have c1: "triggers night_payload (Fin 125.5) (PyDatetime \<lparr>hour = 23, weekday = 0\<rparr>) unusual_time_rule"
    by simp
  have s1: "six_payload ''timestamp'' = Some (PyDatetime \<lparr>hour = 6, weekday = 3\<rparr>) \<or>
     (\<exists>s. six_payload ''timestamp'' = Some (PyStr s) \<and>
          fromisoformat demo_runtime (replace_Z s) = Some \<lparr>hour = 6, weekday = 3\<rparr>)"
    by (simp add: six_payload_def)
  have s2: "apply_risk_rules ?eng demo_runtime six_payload = Inr (1.5, [''unusual_time''])"
    by (rule six_rules)
  have s3: "py_float demo_runtime (dict_get six_payload ''amount'' (PyInt 0)) = Inr (Fin 125.5)"
    by (simp add: six_payload_def dict_get_def)
  from time_rule_window [OF s1 s2] obtain a2 where
    "py_float demo_runtime (dict_get six_payload ''amount'' (PyInt 0)) = Inr a2"
    "\<forall>r. type r = ''time'' \<longrightarrow>
       (triggers six_payload a2 (PyDatetime \<lparr>hour = 6, weekday = 3\<rparr>) r \<longleftrightarrow>
          hour \<lparr>hour = 6, weekday = 3\<rparr> \<ge> 22 \<or> hour \<lparr>hour = 6, weekday = 3\<rparr> \<le> 6)"
    by blast
  with s3 ty
  have c2: "triggers six_payload (Fin 125.5) (PyDatetime \<lparr>hour = 6, weekday = 3\<rparr>) unusual_time_rule"
    by simp
  have v1: "seven_payload ''timestamp'' = Some (PyDatetime \<lparr>hour = 7, weekday = 3\<rparr>) \<or>
     (\<exists>s. seven_payload ''timestamp'' = Some (PyStr s) \<and>
          fromisoformat demo_runtime (replace_Z s) = Some \<lparr>hour = 7, weekday = 3\<rparr>)"
    by (simp add: seven_payload_def)
  have v2: "apply_risk_rules ?eng demo_runtime seven_payload = Inr (0, [])"
    by (rule seven_rules)
  have v3: "py_float demo_runtime (dict_get seven_payload ''amount'' (PyInt 0)) = Inr (Fin 125.5)"
    by (simp add: seven_payload_def dict_get_def)
  from time_rule_window [OF v1 v2] obtain a3 where
    "py_float demo_runtime (dict_get seven_payload ''amount'' (PyInt 0)) = Inr a3"
    "\<forall>r. type r = ''time'' \<longrightarrow>
       (triggers seven_payload a3 (PyDatetime \<lparr>hour = 7, weekday = 3\<rparr>) r \<longleftrightarrow>
          hour \<lparr>hour = 7, weekday = 3\<rparr> \<ge> 22 \<or> hour \<lparr>hour = 7, weekday = 3\<rparr> \<le> 6)"
    by blast
  with v3 ty
  have c3: "\<not> triggers seven_payload (Fin 125.5) (PyDatetime \<lparr>hour = 7, weekday = 3\<rparr>) unusual_time_rule"
    by simp
  from n2 c1 s2 c2 v2 c3 show ?thesis by blast
qed

section \<open>Flag and rounded score (C10)\<close>

text \<open>
  Claim C10, as the code has it. The flag compares the unrounded final score with the
  configured threshold, while \<open>risk_score\<close> is the final score rounded to two decimals.
  Hence, when the threshold is a whole number of hundredths (as the default 0.7 is) and the
  final score lies below the threshold and more than a billionth above the threshold minus
  0.005 (0.696 for the default), the result reports a risk score equal to the threshold and
  is not flagged. Nearer to the threshold minus 0.005 the score is at a tie, or so close to
  one that the binary value of the float decides the direction, and the reported score may
  stay below the threshold.
\<close>

theorem flag_compares_unrounded_score:
  assumes "extract_features rt td = Inr features"
      and "apply_risk_rules eng rt td = Inr (rs, names)"
  shows "risk_score (analyze_transaction st eng rt td) =
           py_round2 rt (combine_scores rs (apply_ml_models eng features)) \<and>
         is_flagged (analyze_transaction st eng rt td) =
           (combine_scores rs (apply_ml_models eng features) \<ge> FRAUD_THRESHOLD st) \<and>
         (FRAUD_THRESHOLD st = of_int k / 100 \<and>
          FRAUD_THRESHOLD st - 0.005 + 1 / 10 ^ 9 < combine_scores rs (apply_ml_models eng features) \<and>
          combine_scores rs (apply_ml_models eng features) < FRAUD_THRESHOLD st \<longrightarrow>
            risk_score (analyze_transaction st eng rt td) = FRAUD_THRESHOLD st \<and>
            \<not> is_flagged (analyze_transaction st eng rt td))"
proof -
  let ?f = "combine_scores rs (apply_ml_models eng features)"
  note a = analyze_score_and_flag(1) [OF assms, of st]
  note b = analyze_score_and_flag(2) [OF assms, of st]
  have "risk_score (analyze_transaction st eng rt td) = FRAUD_THRESHOLD st \<and>
        \<not> is_flagged (analyze_transaction st eng rt td)"
    if h: "FRAUD_THRESHOLD st = of_int k / 100 \<and>
           FRAUD_THRESHOLD st - 0.005 + 1 / 10 ^ 9 < ?f \<and> ?f < FRAUD_THRESHOLD st"
  proof -
    from h have t: "FRAUD_THRESHOLD st = of_int k / 100"
      and lo: "of_int k / 100 - 0.005 + 1 / 10 ^ 9 < ?f"
      and hi: "?f < of_int k / 100" by simp_all
    from py_round2_near [OF lo hi] have "py_round2 rt ?f = of_int k / 100" .
    with a b t hi show ?thesis by simp
  qed
  with a b show ?thesis by blast
qed

text \<open>
  The default threshold 0.7: a final score of 0.696 is reported as 0.7 and not flagged; a
  final score of 1.0 is reported as 1.0 and flagged.
\<close>

theorem flag_compares_unrounded_score_witness:
  "combine_scores 0 (apply_ml_models (demo_engine load_risk_rules (Inr 0.5) (Inr 0.348))
      [[np_log1p (Fin 125.5), Fin 14, Fin 2, Fin 3, Fin 0, Fin 1, Fin 1, Fin 0.01255]]) = 0.696 \<and>
   risk_score (analyze_transaction default_settings (demo_engine load_risk_rules (Inr 0.5) (Inr 0.348))
      demo_runtime day_payload) = 0.7 \<and>
   \<not> is_flagged (analyze_transaction default_settings (demo_engine load_risk_rules (Inr 0.5) (Inr 0.348))
      demo_runtime day_payload) \<and>
   combine_scores 0 (apply_ml_models (demo_engine load_risk_rules (Inr 0.5) (Inr 0.5))
      [[np_log1p (Fin 125.5), Fin 14, Fin 2, Fin 3, Fin 0, Fin 1, Fin 1, Fin 0.01255]]) = 1 \<and>
   risk_score (analyze_transaction default_settings (demo_engine load_risk_rules (Inr 0.5) (Inr 0.5))
      demo_runtime day_payload) = 1 \<and>
   is_flagged (analyze_transaction default_settings (demo_engine load_risk_rules (Inr 0.5) (Inr 0.5))
      demo_runtime day_payload)"
proof -
  let ?eng = "demo_engine load_risk_rules (Inr 0.5) (Inr 0.348)"
  let ?eng2 = "demo_engine load_risk_rules (Inr 0.5) (Inr 0.5)"
  let ?fs = "[[np_log1p (Fin 125.5), Fin 14, Fin 2, Fin 3, Fin 0, Fin 1, Fin 1, Fin 0.01255]]"
  have f: "combine_scores 0 (apply_ml_models ?eng ?fs) = 0.696"
    by (simp add: demo_ml combine_scores_def)
  have h: "FRAUD_THRESHOLD default_settings = of_int 70 / 100 \<and>
      FRAUD_THRESHOLD default_settings - 0.005 + 1 / 10 ^ 9 <
        combine_scores 0 (apply_ml_models ?eng ?fs) \<and>
      combine_scores 0 (apply_ml_models ?eng ?fs) < FRAUD_THRESHOLD default_settings"
    unfolding f by (simp add: default_settings_def)
  note t = flag_compares_unrounded_score [OF day_features day_rules, of default_settings
      "Inr 0.5" "Inr 0.348" 70]
  from t h have "risk_score (analyze_transaction default_settings ?eng demo_runtime day_payload) =
      FRAUD_THRESHOLD default_settings" by blast
  then have a: "risk_score (analyze_transaction default_settings ?eng demo_runtime day_payload) = 0.7"
    by (simp add: default_settings_def)
  from t h have b: "\<not> is_flagged (analyze_transaction default_settings ?eng demo_runtime day_payload)"
    by blast
  have f2: "combine_scores 0 (apply_ml_models ?eng2 ?fs) = 1"
    by (simp add: demo_ml combine_scores_def)
  have r2: "py_round2 demo_runtime 1 = 1"
    using py_round2_exact [of demo_runtime 100] by simp
  note t2 = flag_compares_unrounded_score [OF day_features day_rules, of default_settings
      "Inr 0.5" "Inr 0.5" 70]
  from t2 have "risk_score (analyze_transaction default_settings ?eng2 demo_runtime day_payload) =
      py_round2 demo_runtime (combine_scores 0 (apply_ml_models ?eng2 ?fs))" by blast
  then have a2: "risk_score (analyze_transaction default_settings ?eng2 demo_runtime day_payload) = 1"
    unfolding f2 r2 .
  from t2 have "is_flagged (analyze_transaction default_settings ?eng2 demo_runtime day_payload) =
      (combine_scores 0 (apply_ml_models ?eng2 ?fs) \<ge> FRAUD_THRESHOLD default_settings)" by blast
  then have b2: "is_flagged (analyze_transaction default_settings ?eng2 demo_runtime day_payload)"
    unfolding f2 by (simp add: default_settings_def)
  from f a b f2 a2 b2 show ?thesis by blast
qed

text \<open>
  A threshold of 0.705 and a final score of 0.7, inside [0.700, 0.705): the reported score
  0.7 is below the threshold. And a threshold of 0.71 with a final score of 0.705, the lower
  end of the interval: the score is at a tie, which this runtime sends to the even 0.70,
  again below the threshold.
\<close>

theorem rounded_score_below_threshold:
  "risk_score (analyze_transaction \<lparr>FRAUD_THRESHOLD = 0.705\<rparr>
      (demo_engine load_risk_rules (Inr 0.5) (Inr 0.35)) demo_runtime day_payload) = 0.7 \<and>
   \<not> is_flagged (analyze_transaction \<lparr>FRAUD_THRESHOLD = 0.705\<rparr>
      (demo_engine load_risk_rules (Inr 0.5) (Inr 0.35)) demo_runtime day_payload) \<and>
   combine_scores 0 (0.35 * 5) = 0.7 \<and> (0.705 - 0.005 :: real) \<le> 0.7 \<and> (0.7 :: real) < 0.705 \<and>
   risk_score (analyze_transaction \<lparr>FRAUD_THRESHOLD = 0.71\<rparr>
      (demo_engine load_risk_rules (Inr 0.5) (Inr 0.3525)) demo_runtime day_payload) = 0.7 \<and>
   \<not> is_flagged (analyze_transaction \<lparr>FRAUD_THRESHOLD = 0.71\<rparr>
      (demo_engine load_risk_rules (Inr 0.5) (Inr 0.3525)) demo_runtime day_payload) \<and>
   combine_scores 0 (0.3525 * 5) = 0.705 \<and> (0.71 - 0.005 :: real) \<le> 0.705 \<and> (0.705 :: real) < 0.71"
proof -
  note a = day_analysis [of "\<lparr>FRAUD_THRESHOLD = 0.705\<rparr>" "0.35"]
  note b = day_analysis [of "\<lparr>FRAUD_THRESHOLD = 0.71\<rparr>" "0.3525"]
  from a b show ?thesis
    by (simp add: combine_scores_def py_round2_def Let_def tie_zone_def demo_runtime_def)
qed

end
